theory Spec2Isabelle
  imports Main "HOL-Library.Multiset"
begin

section \<open>Common conventions\<close>

text \<open>
  The code under study is C glue around Vulkan, CUDA and VA-API. A C function is
  embedded as a HOL function from its inputs and from the answers of the driver
  calls it makes to its return value, the objects it leaves behind and the list
  of driver calls it made. A read through a null or out-of-range pointer is
  undefined behaviour in C; the embedding makes it a value of its own, so that
  no theorem silently depends on it.
\<close>

datatype fault = NullDeref | OutOfBounds

section \<open>The display-spec option (context_display.c, string option variant)\<close>

subsection \<open>C strings\<close>

text \<open>
  A C string is the bytes before the terminating NUL. A pointer into the string is
  an offset (\<open>Some i\<close>, where \<open>i = length s\<close> is the terminator) or \<open>None\<close>
  for the null pointer. Arithmetic on the null pointer stays null-derived.
\<close>

definition c_str :: "string \<Rightarrow> string" where
  "c_str bytes = takeWhile (\<lambda>c. c \<noteq> CHR 0x00) bytes"

fun strchr :: "string \<Rightarrow> char \<Rightarrow> nat option" where
  "strchr [] c = None"
| "strchr (x # xs) c = (if x = c then Some 0 else map_option Suc (strchr xs c))"

definition strchr_from :: "string \<Rightarrow> nat \<Rightarrow> char \<Rightarrow> nat option" where
  "strchr_from s start c = map_option (\<lambda>k. start + k) (strchr (drop start s) c)"

definition ptr_add :: "nat option \<Rightarrow> nat \<Rightarrow> nat option" where
  "ptr_add p k = map_option (\<lambda>i. i + k) p"

definition deref :: "string \<Rightarrow> nat option \<Rightarrow> fault + char" where
  "deref s p =
     (case p of
        None \<Rightarrow> Inl NullDeref
      | Some i \<Rightarrow>
          if i < length s then Inr (s ! i)
          else if i = length s then Inr (CHR 0x00)
          else Inl OutOfBounds)"

text \<open>
  \<open>atoi\<close> belongs to the C library: leading white space, an optional sign, then
  decimal digits up to the first other character; no digits give 0. (An overflowing
  value is undefined in C; the model keeps the mathematical value.)
\<close>

definition is_space :: "char \<Rightarrow> bool" where
  "is_space c = (c \<in> set [CHR '' '', CHR 0x09, CHR 0x0A, CHR 0x0B, CHR 0x0C, CHR 0x0D])"

definition is_digit :: "char \<Rightarrow> bool" where
  "is_digit c = (48 \<le> (of_char c :: nat) \<and> (of_char c :: nat) \<le> 57)"

definition digit_val :: "char \<Rightarrow> int" where
  "digit_val c = int (of_char c) - 48"

fun atoi_digits :: "int \<Rightarrow> string \<Rightarrow> int" where
  "atoi_digits acc [] = acc"
| "atoi_digits acc (c # cs) =
     (if is_digit c then atoi_digits (10 * acc + digit_val c) cs else acc)"

definition atoi :: "string \<Rightarrow> int" where
  "atoi s =
     (case dropWhile is_space s of
        [] \<Rightarrow> 0
      | c # cs \<Rightarrow>
          if c = CHR ''-'' then - atoi_digits 0 cs
          else if c = CHR ''+'' then atoi_digits 0 cs
          else atoi_digits 0 (c # cs))"

subsection \<open>parse_display_spec\<close>

text \<open>
  The result is \<open>(ret, parsed_display, parsed_mode, parsed_plane)\<close>; the caller's
  out-pointers, when not null, receive the three numbers. The string argument is
  \<open>None\<close> for a null pointer. The debug message is not modelled.

  The read \<open>*(plane_ptr + 1)\<close> stands after the closing brace of
  \<open>if (plane_ptr)\<close>, so it is made whatever \<open>plane_ptr\<close> is.
\<close>

definition parse_display_spec :: "string option \<Rightarrow> fault + (bool \<times> int \<times> int \<times> int)" where
  "parse_display_spec display_spec =
     (case display_spec of
        None \<Rightarrow> Inr (False, 0, 0, 0)
      | Some s \<Rightarrow>
          (case strchr s CHR '':'' of
             None \<Rightarrow> Inr (False, 0, 0, 0)
           | Some mode_ptr \<Rightarrow>
               (let parsed_display = atoi s;
                    plane_ptr = strchr_from s (mode_ptr + 1) CHR '':'';
                    parsed_mode =
                      (case plane_ptr of
                         Some _ \<Rightarrow> atoi (drop (mode_ptr + 1) s)
                       | None \<Rightarrow> 0)
                in case deref s (ptr_add plane_ptr 1) of
                     Inl f \<Rightarrow> Inl f
                   | Inr c \<Rightarrow>
                       Inr (True, parsed_display, parsed_mode,
                            if c \<noteq> CHR 0x00
                            then atoi (drop (the (ptr_add plane_ptr 1)) s)
                            else 0))))"

subsection \<open>display_validate_spec\<close>

text \<open>
  The option parser hands over the parameter as a counted byte string;
  \<open>bstr_equals0\<close> compares all of it with \<open>help\<close>, and \<open>bstrto0\<close> copies it
  into a C string. \<open>M_OPT_EXIT\<close> and \<open>M_OPT_INVALID\<close> are macros of the option
  parser; they are kept symbolic. The calls the validator makes are recorded.
\<close>

datatype opt_ret = M_OPT_EXIT | M_OPT_INVALID | RetInt int

datatype validate_call = Print_display_info | Mp_fatal

definition display_validate_spec :: "string \<Rightarrow> fault + (validate_call list \<times> opt_ret)" where
  "display_validate_spec param =
     (if param = ''help'' then Inr ([Print_display_info], M_OPT_EXIT)
      else
        (case parse_display_spec (Some (c_str param)) of
           Inl f \<Rightarrow> Inl f
         | Inr (ret, _, _, _) \<Rightarrow>
             if \<not> ret then Inr ([Mp_fatal], M_OPT_INVALID)
             else Inr ([], RetInt 1)))"

text \<open>
  The format as the option's documentation words it: three fields separated by two
  colons, each field a decimal index.
\<close>

fun split_colon :: "string \<Rightarrow> string list" where
  "split_colon [] = [[]]"
| "split_colon (c # cs) =
     (if c = CHR '':'' then [] # split_colon cs
      else (case split_colon cs of f # fs \<Rightarrow> (c # f) # fs | [] \<Rightarrow> [[c]]))"

definition is_index :: "string \<Rightarrow> bool" where
  "is_index f = (f \<noteq> [] \<and> list_all is_digit f)"

definition spec_DMP_form :: "string \<Rightarrow> bool" where
  "spec_DMP_form s =
     (case split_colon s of
        [d, m, p] \<Rightarrow> is_index d \<and> is_index m \<and> is_index p
      | _ \<Rightarrow> False)"

section \<open>Display, mode and plane selection (context_display.c, integer options variant)\<close>

subsection \<open>What the Vulkan driver reports\<close>

text \<open>
  The function asks the driver for the displays of the device, the modes of a
  display, the planes of the device and, for each plane, the displays it can be
  shown on. Every query is made twice, once for the count and once for the
  entries; the second call returns a \<open>VkResult\<close> that the code tests. Handles are
  numbers, 0 being \<open>VK_NULL_HANDLE\<close>. The device below is what the driver answers.
\<close>

record vk_mode =
  displayMode :: nat
  region_width :: nat
  region_height :: nat
  refreshRate :: nat

record vk_display =
  display :: nat
  modes :: "vk_mode list"
  modes_res_ok :: bool

record vk_plane =
  supported_displays :: "nat list"
  supported_res_ok :: bool

record vk_device =
  displays :: "vk_display list"
  displays_res_ok :: bool
  planes :: "vk_plane list"
  planes_res_ok :: bool

record mode_selector =
  display_idx :: int
  mode_idx :: int
  plane_idx :: int

text \<open>
  The indices are C \<open>int\<close>s read from integer options without a range.
  \<open>idx + 1 > num\<close> overflows for the largest \<open>int\<close>, which C leaves undefined.
\<close>

datatype walk_fault = SignedOverflow | UninitialisedPointer

definition INT_MAX :: int where
  "INT_MAX = 2147483647"

definition idx_plus1_gt :: "int \<Rightarrow> int \<Rightarrow> walk_fault + bool" where
  "idx_plus1_gt idx num = (if idx = INT_MAX then Inl SignedOverflow else Inr (idx + 1 > num))"

text \<open>
  \<open>planes_to_displays\<close> is allocated without being cleared. Entry \<open>j\<close> is set to
  a zero-terminated copy of the plane's displays only when the plane reports at
  least one display and the second query succeeds; otherwise it stays
  uninitialised (\<open>None\<close>).
\<close>

definition plane_displays_entry :: "vk_plane \<Rightarrow> nat list option" where
  "plane_displays_entry pl =
     (if length (supported_displays pl) = 0 then None
      else if \<not> supported_res_ok pl then None
      else Some (supported_displays pl @ [0]))"

definition planes_to_displays :: "vk_device \<Rightarrow> nat list option list" where
  "planes_to_displays dev = map plane_displays_entry (planes dev)"

text \<open>The loop \<open>for (d = 0; displays[d]; d++)\<close> over one zero-terminated array.\<close>

fun scan_plane_displays :: "mode_selector option \<Rightarrow> nat \<Rightarrow> nat \<Rightarrow> nat list \<Rightarrow> int \<Rightarrow> int" where
  "scan_plane_displays selector disp k [] found_plane = found_plane"
| "scan_plane_displays selector disp k (h # hs) found_plane =
     (if h = 0 then found_plane
      else if h = disp then
        (if selector \<noteq> None \<and> plane_idx (the selector) \<noteq> int k
         then scan_plane_displays selector disp k hs found_plane
         else scan_plane_displays selector disp k hs (int k))
      else scan_plane_displays selector disp k hs found_plane)"

text \<open>The loop over the planes \<open>k\<close>, starting at plane \<open>k\<close> with the remaining entries.\<close>

fun scan_planes ::
  "mode_selector option \<Rightarrow> nat \<Rightarrow> nat \<Rightarrow> nat list option list \<Rightarrow> int \<Rightarrow> walk_fault + int" where
  "scan_planes selector disp k [] found_plane = Inr found_plane"
| "scan_planes selector disp k (e # es) found_plane =
     (case e of
        None \<Rightarrow> Inl UninitialisedPointer
      | Some arr \<Rightarrow>
          scan_planes selector disp (Suc k) es (scan_plane_displays selector disp k arr found_plane))"

text \<open>
  The loop over the modes \<open>k\<close> of the selected display: with a selector, the mode
  whose index equals \<open>mode_idx\<close> is copied to \<open>out_mode_props\<close>.
\<close>

fun scan_modes ::
  "mode_selector option \<Rightarrow> nat \<Rightarrow> vk_mode list \<Rightarrow> vk_mode option \<Rightarrow> vk_mode option" where
  "scan_modes selector k [] out = out"
| "scan_modes selector k (m # ms) out =
     (if selector \<noteq> None \<and> mode_idx (the selector) \<noteq> int k
      then scan_modes selector (Suc k) ms out
      else scan_modes selector (Suc k) ms (if selector \<noteq> None then Some m else out))"

text \<open>
  The loop over the displays \<open>j\<close>. \<open>continue\<close> goes on with the next display,
  \<open>goto done\<close> returns false. The result carries \<open>out_mode_props\<close>.
\<close>

fun walk_displays ::
  "vk_device \<Rightarrow> mode_selector option \<Rightarrow> nat \<Rightarrow> vk_display list \<Rightarrow> vk_mode option \<Rightarrow>
   walk_fault + (bool \<times> vk_mode option)" where
  "walk_displays dev selector j [] out = Inr (True, out)"
| "walk_displays dev selector j (d # ds) out =
     (if selector \<noteq> None \<and> display_idx (the selector) \<noteq> int j
      then walk_displays dev selector (Suc j) ds out
      else if length (modes d) = 0
      then walk_displays dev selector (Suc j) ds out
      else
        (case (if selector \<noteq> None
               then idx_plus1_gt (mode_idx (the selector)) (int (length (modes d)))
               else Inr False) of
           Inl f \<Rightarrow> Inl f
         | Inr True \<Rightarrow> Inr (False, out)
         | Inr False \<Rightarrow>
             if \<not> modes_res_ok d
             then walk_displays dev selector (Suc j) ds out
             else
               (let out' = scan_modes selector 0 (modes d) out
                in case scan_planes selector (display d) 0 (planes_to_displays dev) (- 1) of
                     Inl f \<Rightarrow> Inl f
                   | Inr found_plane \<Rightarrow>
                       if selector \<noteq> None \<and> plane_idx (the selector) \<noteq> found_plane
                       then Inr (False, out')
                       else walk_displays dev selector (Suc j) ds out')))"

text \<open>
  \<open>walk_display_properties\<close>: the selector is \<open>None\<close> for the null pointer. The
  second component of the result is \<open>selector->out_mode_props\<close> on return
  (\<open>None\<close> for the null pointer the caller initialised it with). Messages are not
  modelled.
\<close>

definition walk_display_properties ::
  "vk_device \<Rightarrow> mode_selector option \<Rightarrow> walk_fault + (bool \<times> vk_mode option)" where
  "walk_display_properties dev selector =
     (let num_displays = int (length (displays dev)) in
      if num_displays = 0 then Inr (False, None)
      else
        (case (if selector \<noteq> None
               then idx_plus1_gt (display_idx (the selector)) num_displays
               else Inr False) of
           Inl f \<Rightarrow> Inl f
         | Inr True \<Rightarrow> Inr (False, None)
         | Inr False \<Rightarrow>
             (let num_planes = int (length (planes dev)) in
              if num_planes = 0 then Inr (False, None)
              else
                (case (if selector \<noteq> None
                       then idx_plus1_gt (plane_idx (the selector)) num_planes
                       else Inr False) of
                   Inl f \<Rightarrow> Inl f
                 | Inr True \<Rightarrow> Inr (False, None)
                 | Inr False \<Rightarrow>
                     if \<not> planes_res_ok dev then Inr (False, None)
                     else if \<not> displays_res_ok dev then Inr (False, None)
                     else walk_displays dev selector 0 (displays dev) None))))"

text \<open>
  The selection the option documentation asks for: the display index is below the
  number of displays, the mode index below the number of modes of that display,
  the plane index below the number of planes, and the plane lists the display.
\<close>

definition valid_selection :: "vk_device \<Rightarrow> mode_selector \<Rightarrow> bool" where
  "valid_selection dev sel =
     (display_idx sel < int (length (displays dev)) \<and>
      mode_idx sel < int (length (modes (displays dev ! nat (display_idx sel)))) \<and>
      plane_idx sel < int (length (planes dev)) \<and>
      display (displays dev ! nat (display_idx sel)) \<in>
        set (supported_displays (planes dev ! nat (plane_idx sel))))"

text \<open>What the loop body does for the selected display.\<close>

definition selected_display_result ::
  "vk_device \<Rightarrow> mode_selector \<Rightarrow> vk_display \<Rightarrow> bool \<times> vk_mode option" where
  "selected_display_result dev sel d =
     (if int (length (modes d)) \<le> mode_idx sel then (False, None)
      else if nat (plane_idx sel) < length (planes dev) \<and>
              display d \<in> set (supported_displays (planes dev ! nat (plane_idx sel)))
      then (True, Some (modes d ! nat (mode_idx sel)))
      else (False, Some (modes d ! nat (mode_idx sel))))"

text \<open>
  The part of \<open>display_init\<close> that uses the selection: the options become the
  selector, a false result fails the initialisation, and otherwise the mode is
  read through \<open>selector.out_mode_props\<close> to create the surface. The instance,
  the device and the last two driver calls are answers of the environment.
\<close>

record display_env =
  mpvk_init_ok :: bool
  chosen_device :: "vk_device option"
  create_surface_ok :: bool
  ra_vk_ctx_init_ok :: bool

datatype init_fault = WalkFault walk_fault | NullModeDeref

definition display_init :: "display_env \<Rightarrow> mode_selector \<Rightarrow> init_fault + (bool \<times> (nat \<times> nat) option)" where
  "display_init env opts =
     (if \<not> mpvk_init_ok env then Inr (False, None)
      else
        (case chosen_device env of
           None \<Rightarrow> Inr (False, None)
         | Some device \<Rightarrow>
             (case walk_display_properties device (Some opts) of
                Inl f \<Rightarrow> Inl (WalkFault f)
              | Inr (False, _) \<Rightarrow> Inr (False, None)
              | Inr (True, None) \<Rightarrow> Inl NullModeDeref
              | Inr (True, Some mode) \<Rightarrow>
                  if \<not> create_surface_ok env then Inr (False, None)
                  else if \<not> ra_vk_ctx_init_ok env
                  then Inr (False, Some (region_width mode, region_height mode))
                  else Inr (True, Some (region_width mode, region_height mode)))))"

section \<open>CUDA interop (the cuda-nvdec hwdec driver)\<close>

subsection \<open>Answers of the environment\<close>

text \<open>
  \<open>HAVE_GL\<close> and \<open>HAVE_VULKAN\<close> are the build switches. Every other field is the
  answer of one call into the renderer, CUDA, Vulkan or libavutil; answers that
  depend on the plane take its index. A CUDA call that fails is one whose
  \<open>CHECK_CU\<close> gives \<open>-1\<close>. Handles are numbers, 0 being the null handle. The build
  is taken not to be for the Windows desktop.
\<close>

record ra_format =
  pixel_size :: nat
  num_components :: nat

record cuda_env =
  HAVE_GL :: bool
  HAVE_VULKAN :: bool
  ra_is_gl :: bool
  gl_version :: int
  gl_es :: int
  ra_vk_get :: "bool option"
  cuda_load_functions_ret :: int
  cuImportExternalMemory_loaded :: bool
  cuInit_ok :: bool
  cuGLGetDevices_res :: "int option"
  cuCtxCreate_ok :: "int \<Rightarrow> bool"
  decode_dev_idx :: int
  cuDeviceGet_res :: "int \<Rightarrow> int option"
  cuDeviceGetCount_res :: "int option"
  cuDeviceGetUuid_res :: "int \<Rightarrow> nat option"
  vk_uuid :: nat
  av_hwdevice_ctx_alloc_ok :: bool
  av_hwdevice_ctx_init_ok :: bool
  cuCtxPushCurrent_ok :: bool
  cuCtxPopCurrent_ok :: bool
  ra_get_imgfmt_desc :: "ra_format list option"
  mp_image_num_planes :: nat
  ra_tex_create_res :: "nat \<Rightarrow> nat"
  cuGraphicsGLRegisterImage_res :: "nat \<Rightarrow> nat option"
  cuGraphicsMapResources_ok :: "nat \<Rightarrow> bool"
  cuGraphicsSubResourceGetMappedArray_res :: "nat \<Rightarrow> nat option"
  cuGraphicsUnmapResources_ok :: "nat \<Rightarrow> bool"
  ra_vk_tex_get_external_info_res :: "nat \<Rightarrow> int option"
  cuImportExternalMemory_res :: "nat \<Rightarrow> nat option"
  cuExternalMemoryGetMappedMipmappedArray_ok :: "nat \<Rightarrow> bool"
  cuMipmappedArrayGetLevel_res :: "nat \<Rightarrow> nat option"
  signal_semaphore_res :: "nat \<Rightarrow> (nat \<times> int) option"
  cuImportExternalSemaphore_ss_res :: "nat \<Rightarrow> nat option"
  wait_semaphore_res :: "nat \<Rightarrow> (nat \<times> int) option"
  cuImportExternalSemaphore_ws_res :: "nat \<Rightarrow> nat option"
  ra_vk_hold_ok :: "nat \<Rightarrow> bool"
  cuWaitExternalSemaphoresAsync_ok :: "nat \<Rightarrow> bool"
  cuMemcpy2DAsync_ok :: "nat \<Rightarrow> bool"
  cuSignalExternalSemaphoresAsync_ok :: "nat \<Rightarrow> bool"

text \<open>The calls the driver makes, in the order it makes them (messages left out).\<close>

datatype cuda_call =
    Cuda_load_functions
  | CuInit
  | CuGLGetDevices
  | CuCtxCreate int
  | CuDeviceGet int
  | CuDeviceGetCount
  | CuDeviceGetUuid int
  | CuCtxPushCurrent nat
  | CuCtxPopCurrent
  | Av_hwdevice_ctx_alloc
  | Av_hwdevice_ctx_init
  | Av_buffer_unref
  | Hwdec_devices_add
  | Ra_tex_create nat
  | CuGraphicsGLRegisterImage nat
  | CuGraphicsMapResources nat
  | CuGraphicsSubResourceGetMappedArray nat
  | CuGraphicsUnmapResources nat
  | CuGraphicsUnregisterResource nat
  | Ra_vk_tex_get_external_info nat
  | CuImportExternalMemory nat
  | CuExternalMemoryGetMappedMipmappedArray nat
  | CuMipmappedArrayGetLevel nat
  | Ra_vk_create_external_semaphore nat
  | CuImportExternalSemaphore nat
  | CuDestroyExternalMemory nat
  | CuDestroyExternalSemaphore nat
  | Close_fd int
  | VkDestroySemaphore nat
  | Mpvk_poll_commands
  | Ra_tex_free nat
  | Ra_vk_hold nat
  | Ra_vk_release nat
  | CuWaitExternalSemaphoresAsync nat
  | CuMemcpy2DAsync nat
  | CuSignalExternalSemaphoresAsync nat

subsection \<open>cuda_init\<close>

text \<open>
  \<open>struct priv_owner\<close> is allocated zeroed by the caller, so \<open>p->is_gl\<close> and
  \<open>p->is_vk\<close> are false where the build switch leaves them unset; \<open>p_is_gl\<close>
  and \<open>p_is_vk\<close> below are the values \<open>cuda_init\<close> stores. The result is the
  return value and the calls made.
\<close>

definition CHECK_CU :: "bool \<Rightarrow> int" where
  "CHECK_CU ok = (if ok then 0 else - 1)"

text \<open>The label \<open>error\<close> of \<open>cuda_init\<close>.\<close>

definition cuda_init_error :: "cuda_call list \<Rightarrow> int \<times> cuda_call list" where
  "cuda_init_error cs = (- 1, cs @ [Av_buffer_unref, CuCtxPopCurrent])"

text \<open>From \<open>av_hwdevice_ctx_alloc\<close> to the end.\<close>

definition cuda_init_hwctx :: "cuda_env \<Rightarrow> cuda_call list \<Rightarrow> int \<times> cuda_call list" where
  "cuda_init_hwctx env cs =
     (if \<not> av_hwdevice_ctx_alloc_ok env
      then cuda_init_error (cs @ [Av_hwdevice_ctx_alloc])
      else if \<not> av_hwdevice_ctx_init_ok env
      then cuda_init_error (cs @ [Av_hwdevice_ctx_alloc, Av_hwdevice_ctx_init])
      else if CHECK_CU (cuCtxPopCurrent_ok env) < 0
      then cuda_init_error (cs @ [Av_hwdevice_ctx_alloc, Av_hwdevice_ctx_init, CuCtxPopCurrent])
      else (0, cs @ [Av_hwdevice_ctx_alloc, Av_hwdevice_ctx_init, CuCtxPopCurrent,
                     Hwdec_devices_add]))"

text \<open>The search for the CUDA device with the UUID of the Vulkan device.\<close>

fun find_display_dev :: "cuda_env \<Rightarrow> int list \<Rightarrow> cuda_call list \<Rightarrow> int \<times> cuda_call list" where
  "find_display_dev env [] cs = (- 1, cs)"
| "find_display_dev env (i # is) cs =
     (case cuDeviceGet_res env i of
        None \<Rightarrow> find_display_dev env is (cs @ [CuDeviceGet i])
      | Some dev \<Rightarrow>
          (case cuDeviceGetUuid_res env dev of
             None \<Rightarrow> find_display_dev env is (cs @ [CuDeviceGet i, CuDeviceGetUuid dev])
           | Some uuid \<Rightarrow>
               if vk_uuid env = uuid then (dev, cs @ [CuDeviceGet i, CuDeviceGetUuid dev])
               else find_display_dev env is (cs @ [CuDeviceGet i, CuDeviceGetUuid dev])))"

definition cuda_init_gl :: "cuda_env \<Rightarrow> cuda_call list \<Rightarrow> int \<times> cuda_call list" where
  "cuda_init_gl env cs =
     (case cuGLGetDevices_res env of
        None \<Rightarrow> (- 1, cs @ [CuGLGetDevices])
      | Some display_dev \<Rightarrow>
          if \<not> cuCtxCreate_ok env display_dev
          then (- 1, cs @ [CuGLGetDevices, CuCtxCreate display_dev])
          else
            (let cs1 = cs @ [CuGLGetDevices, CuCtxCreate display_dev] in
             if decode_dev_idx env > - 1 then
               (case cuDeviceGet_res env (decode_dev_idx env) of
                  None \<Rightarrow> cuda_init_error (cs1 @ [CuDeviceGet (decode_dev_idx env)])
                | Some decode_dev \<Rightarrow>
                    (let cs2 = cs1 @ [CuDeviceGet (decode_dev_idx env)] in
                     if decode_dev \<noteq> display_dev then
                       (if CHECK_CU (cuCtxPopCurrent_ok env) < 0
                        then (- 1, cs2 @ [CuCtxPopCurrent])
                        else if \<not> cuCtxCreate_ok env decode_dev
                        then (- 1, cs2 @ [CuCtxPopCurrent, CuCtxCreate decode_dev])
                        else cuda_init_hwctx env (cs2 @ [CuCtxPopCurrent, CuCtxCreate decode_dev]))
                     else cuda_init_hwctx env cs2))
             else cuda_init_hwctx env cs1))"

definition cuda_init_vk :: "cuda_env \<Rightarrow> cuda_call list \<Rightarrow> int \<times> cuda_call list" where
  "cuda_init_vk env cs =
     (if \<not> HAVE_VULKAN env then cuda_init_hwctx env cs
      else
        (case cuDeviceGetCount_res env of
           None \<Rightarrow> (- 1, cs @ [CuDeviceGetCount])
         | Some dev_count \<Rightarrow>
             (case find_display_dev env [0..dev_count - 1] (cs @ [CuDeviceGetCount]) of
                (display_dev, cs1) \<Rightarrow>
                  if display_dev = - 1 then (- 1, cs1)
                  else if \<not> cuCtxCreate_ok env display_dev
                  then (- 1, cs1 @ [CuCtxCreate display_dev])
                  else cuda_init_hwctx env (cs1 @ [CuCtxCreate display_dev]))))"

definition p_is_gl :: "cuda_env \<Rightarrow> bool" where
  "p_is_gl env = (HAVE_GL env \<and> ra_is_gl env)"

definition p_is_vk :: "cuda_env \<Rightarrow> bool" where
  "p_is_vk env = (HAVE_VULKAN env \<and> ra_vk_get env \<noteq> None)"

definition cuda_init :: "cuda_env \<Rightarrow> int \<times> cuda_call list" where
  "cuda_init env =
     (if p_is_gl env \<and> gl_version env < 210 \<and> gl_es env < 300 then (- 1, [])
      else if p_is_vk env \<and> ra_vk_get env = Some False then (- 1, [])
      else if \<not> p_is_gl env \<and> \<not> p_is_vk env then (- 1, [])
      else if cuda_load_functions_ret env \<noteq> 0 then (- 1, [Cuda_load_functions])
      else if p_is_vk env \<and> \<not> cuImportExternalMemory_loaded env
      then (- 1, [Cuda_load_functions])
      else if CHECK_CU (cuInit_ok env) < 0 then (- 1, [Cuda_load_functions, CuInit])
      else if p_is_gl env then cuda_init_gl env [Cuda_load_functions, CuInit]
      else if p_is_vk env then cuda_init_vk env [Cuda_load_functions, CuInit]
      else cuda_init_hwctx env [Cuda_load_functions, CuInit])"

subsection \<open>The CUDA mapper\<close>

text \<open>
  \<open>struct priv\<close> of the mapper with the four texture slots of the mapper itself,
  the stack of current CUDA contexts of the calling thread, and the calls made so
  far. \<open>p_owner\<close> carries what \<open>cuda_init\<close> left in \<open>struct priv_owner\<close>.
\<close>

record ext_buf =
  fd :: int
  mem :: nat
  ss :: nat
  signal_s :: nat
  signal_fd :: int
  ws :: nat
  wait_s :: nat
  wait_fd :: int

record cuda_mapper =
  tex :: "nat list"
  cu_res :: "nat list"
  cu_array :: "nat list"
  ebuf :: "ext_buf list"
  display_ctx :: nat
  layout_num_planes :: nat
  ctx_stack :: "nat list"
  calls :: "cuda_call list"

record priv_owner =
  is_gl :: bool
  is_vk :: bool
  owner_display_ctx :: nat

datatype cuda_fault = DivByZero | PlaneOutOfRange | NullTex

definition call :: "cuda_call \<Rightarrow> cuda_mapper \<Rightarrow> cuda_mapper" where
  "call c m = m\<lparr>calls := calls m @ [c]\<rparr>"

text \<open>
  \<open>cuCtxPushCurrent\<close> puts the context on top of the stack when it succeeds;
  \<open>cuCtxPopCurrent\<close> takes the top off when it succeeds, which it cannot on an
  empty stack. Both return the value of \<open>CHECK_CU\<close>.
\<close>

definition cuCtxPushCurrent :: "cuda_env \<Rightarrow> nat \<Rightarrow> cuda_mapper \<Rightarrow> int \<times> cuda_mapper" where
  "cuCtxPushCurrent env ctx m =
     (if cuCtxPushCurrent_ok env
      then (0, call (CuCtxPushCurrent ctx) (m\<lparr>ctx_stack := ctx # ctx_stack m\<rparr>))
      else (- 1, call (CuCtxPushCurrent ctx) m))"

definition cuCtxPopCurrent :: "cuda_env \<Rightarrow> cuda_mapper \<Rightarrow> int \<times> cuda_mapper" where
  "cuCtxPopCurrent env m =
     (if cuCtxPopCurrent_ok env \<and> ctx_stack m \<noteq> []
      then (0, call CuCtxPopCurrent (m\<lparr>ctx_stack := tl (ctx_stack m)\<rparr>))
      else (- 1, call CuCtxPopCurrent m))"

definition upd_ebuf :: "nat \<Rightarrow> (ext_buf \<Rightarrow> ext_buf) \<Rightarrow> cuda_mapper \<Rightarrow> cuda_mapper" where
  "upd_ebuf n f m = m\<lparr>ebuf := (ebuf m)[n := f (ebuf m ! n)]\<rparr>"

text \<open>
  \<open>cuda_ebuf_init\<close> returns a \<open>bool\<close>; every failure goes to its label
  \<open>error\<close>, which returns false.
\<close>

definition cuda_ebuf_init ::
  "cuda_env \<Rightarrow> cuda_mapper \<Rightarrow> ra_format \<Rightarrow> nat \<Rightarrow> cuda_fault + (bool \<times> cuda_mapper)" where
  "cuda_ebuf_init env m format n =
     (let m1 = call (Ra_vk_tex_get_external_info n) m in
      case ra_vk_tex_get_external_info_res env n of
        None \<Rightarrow> Inr (False, m1)
      | Some mem_fd \<Rightarrow>
      (let m2 = call (CuImportExternalMemory n) (upd_ebuf n (\<lambda>e. e\<lparr>fd := mem_fd\<rparr>) m1) in
       case cuImportExternalMemory_res env n of
         None \<Rightarrow> Inr (False, m2)
       | Some h \<Rightarrow>
       (let m3 = upd_ebuf n (\<lambda>e. e\<lparr>mem := h\<rparr>) m2 in
        if num_components format = 0 then Inl DivByZero
        else if pixel_size format div num_components format \<noteq> 1 \<and>
                pixel_size format div num_components format \<noteq> 2
        then Inr (False, m3)
        else
        (let m4 = call (CuExternalMemoryGetMappedMipmappedArray n) m3 in
         if CHECK_CU (cuExternalMemoryGetMappedMipmappedArray_ok env n) < 0 then Inr (False, m4)
         else
         (let m5 = call (CuMipmappedArrayGetLevel n) m4 in
          case cuMipmappedArrayGetLevel_res env n of
            None \<Rightarrow> Inr (False, m5)
          | Some arr \<Rightarrow>
          (let m6 = call (Ra_vk_create_external_semaphore n) (m5\<lparr>cu_array := (cu_array m5)[n := arr]\<rparr>) in
           case signal_semaphore_res env n of
             None \<Rightarrow> Inr (False, m6)
           | Some (s, sfd) \<Rightarrow>
           (let m7 = call (CuImportExternalSemaphore n)
                       (upd_ebuf n (\<lambda>e. e\<lparr>signal_s := s, signal_fd := sfd\<rparr>) m6) in
            case cuImportExternalSemaphore_ss_res env n of
              None \<Rightarrow> Inr (False, m7)
            | Some hs \<Rightarrow>
            (let m8 = call (Ra_vk_create_external_semaphore n) (upd_ebuf n (\<lambda>e. e\<lparr>ss := hs\<rparr>) m7) in
             case wait_semaphore_res env n of
               None \<Rightarrow> Inr (False, m8)
             | Some (w, wfd) \<Rightarrow>
             (let m9 = call (CuImportExternalSemaphore n)
                         (upd_ebuf n (\<lambda>e. e\<lparr>wait_s := w, wait_fd := wfd\<rparr>) m8) in
              case cuImportExternalSemaphore_ws_res env n of
                None \<Rightarrow> Inr (False, m9)
              | Some hw \<Rightarrow> Inr (True, upd_ebuf n (\<lambda>e. e\<lparr>ws := hw\<rparr>) m9))))))))))"

text \<open>
  The four CUDA-GL calls of one plane under \<open>HAVE_GL\<close>; the result is the last
  \<open>ret\<close> and whether the code went to \<open>error\<close>.
\<close>

definition mapper_init_gl_plane :: "cuda_env \<Rightarrow> nat \<Rightarrow> cuda_mapper \<Rightarrow> int \<times> cuda_mapper" where
  "mapper_init_gl_plane env n m =
     (let m1 = call (CuGraphicsGLRegisterImage n) m in
      case cuGraphicsGLRegisterImage_res env n of
        None \<Rightarrow> (- 1, m1)
      | Some r \<Rightarrow>
      (let m2 = call (CuGraphicsMapResources n) (m1\<lparr>cu_res := (cu_res m1)[n := r]\<rparr>) in
       if CHECK_CU (cuGraphicsMapResources_ok env n) < 0 then (- 1, m2)
       else
       (let m3 = call (CuGraphicsSubResourceGetMappedArray n) m2 in
        case cuGraphicsSubResourceGetMappedArray_res env n of
          None \<Rightarrow> (- 1, m3)
        | Some arr \<Rightarrow>
        (let m4 = call (CuGraphicsUnmapResources n) (m3\<lparr>cu_array := (cu_array m3)[n := arr]\<rparr>) in
         (CHECK_CU (cuGraphicsUnmapResources_ok env n), m4)))))"

text \<open>
  The loop of \<open>mapper_init\<close> over the planes of the format, from plane \<open>n\<close> on,
  with the current value of \<open>ret\<close>. Leaving the loop and \<open>goto error\<close> both
  arrive at the label \<open>error\<close>, so both end the recursion with \<open>ret\<close>.
  \<open>cuda_ebuf_init\<close> gives a \<open>bool\<close>, assigned to the \<open>int\<close> \<open>ret\<close> as 1 or 0
  and then tested with \<open>ret < 0\<close>.
\<close>

fun mapper_init_planes ::
  "cuda_env \<Rightarrow> priv_owner \<Rightarrow> nat \<Rightarrow> ra_format list \<Rightarrow> int \<Rightarrow> cuda_mapper \<Rightarrow>
   cuda_fault + (int \<times> cuda_mapper)" where
  "mapper_init_planes env p_owner n [] ret m = Inr (ret, m)"
| "mapper_init_planes env p_owner n (format # formats) ret m =
     (if 4 \<le> n then Inl PlaneOutOfRange
      else
        (let t = ra_tex_create_res env n;
             m1 = call (Ra_tex_create n) (m\<lparr>tex := (tex m)[n := t]\<rparr>)
         in
         if t = 0 then Inr (- 1, m1)
         else if is_gl p_owner then
           (if HAVE_GL env then
              (case mapper_init_gl_plane env n m1 of
                 (ret', m2) \<Rightarrow>
                   if ret' < 0 then Inr (ret', m2)
                   else mapper_init_planes env p_owner (Suc n) formats ret' m2)
            else mapper_init_planes env p_owner (Suc n) formats ret m1)
         else if is_vk p_owner then
           (case cuda_ebuf_init env m1 format n of
              Inl f \<Rightarrow> Inl f
            | Inr (b, m2) \<Rightarrow>
                (let ret' = (if b then 1 else 0) in
                 if ret' < 0 then Inr (ret', m2)
                 else mapper_init_planes env p_owner (Suc n) formats ret' m2))
         else mapper_init_planes env p_owner (Suc n) formats ret m1))"

definition cuda_mapper_init ::
  "cuda_env \<Rightarrow> priv_owner \<Rightarrow> cuda_mapper \<Rightarrow> cuda_fault + (int \<times> cuda_mapper)" where
  "cuda_mapper_init env p_owner m =
     (let m0 = m\<lparr>display_ctx := owner_display_ctx p_owner,
                 layout_num_planes := mp_image_num_planes env\<rparr>
      in
      case ra_get_imgfmt_desc env of
        None \<Rightarrow> Inr (- 1, m0)
      | Some desc_planes \<Rightarrow>
          (case cuCtxPushCurrent env (display_ctx m0) m0 of
             (ret, m1) \<Rightarrow>
               if ret < 0 then Inr (ret, m1)
               else
                 (case mapper_init_planes env p_owner 0 desc_planes ret m1 of
                    Inl f \<Rightarrow> Inl f
                  | Inr (ret', m2) \<Rightarrow>
                      (case cuCtxPopCurrent env m2 of
                         (eret, m3) \<Rightarrow>
                           if eret < 0 then Inr (eret, m3) else Inr (ret', m3)))))"

subsection \<open>mapper_uninit\<close>

definition cuda_ebuf_uninit :: "nat \<Rightarrow> cuda_mapper \<Rightarrow> cuda_mapper" where
  "cuda_ebuf_uninit n m =
     (let e = ebuf m ! n;
          m1 = (if mem e > 0 then call (CuDestroyExternalMemory (mem e)) m
                else if fd e > - 1 then call (Close_fd (fd e)) m else m);
          m2 = (if ss e \<noteq> 0 then call (CuDestroyExternalSemaphore (ss e)) m1
                else if signal_fd e > - 1 then call (Close_fd (signal_fd e)) m1 else m1);
          m3 = (if signal_s e \<noteq> 0 then call (VkDestroySemaphore (signal_s e)) m2 else m2);
          m4 = (if ws e \<noteq> 0 then call (CuDestroyExternalSemaphore (ws e)) m3
                else if wait_fd e > - 1 then call (Close_fd (wait_fd e)) m3 else m3)
      in if wait_s e \<noteq> 0 then call (VkDestroySemaphore (wait_s e)) m4 else m4)"

definition mapper_uninit_plane :: "cuda_env \<Rightarrow> nat \<Rightarrow> cuda_mapper \<Rightarrow> cuda_mapper" where
  "mapper_uninit_plane env n m =
     (let m1 = (if cu_res m ! n > 0 then call (CuGraphicsUnregisterResource (cu_res m ! n)) m else m);
          m2 = m1\<lparr>cu_res := (cu_res m1)[n := 0]\<rparr>;
          m3 = (if HAVE_VULKAN env then cuda_ebuf_uninit n m2 else m2)
      in call (Ra_tex_free n) (m3\<lparr>tex := (tex m3)[n := 0]\<rparr>))"

text \<open>
  \<open>mapper_uninit\<close> tests none of its CUDA calls (``this is all best effort''),
  the push and the pop included.
\<close>

definition cuda_mapper_uninit :: "cuda_env \<Rightarrow> priv_owner \<Rightarrow> cuda_mapper \<Rightarrow> cuda_mapper" where
  "cuda_mapper_uninit env p_owner m =
     (let m0 = (if HAVE_VULKAN env \<and> is_vk p_owner then call Mpvk_poll_commands m else m);
          m1 = snd (cuCtxPushCurrent env (display_ctx m0) m0);
          m2 = fold (mapper_uninit_plane env) [0, 1, 2, 3] m1
      in snd (cuCtxPopCurrent env m2))"

subsection \<open>mapper_map\<close>

text \<open>
  The loop of \<open>mapper_map\<close> from plane \<open>n\<close> on, \<open>k\<close> planes being left.
  \<open>ra_vk_hold\<close> gives a \<open>bool\<close> that becomes \<open>ret\<close>. The copy reads
  \<open>mapper->tex[n]->params\<close>.
\<close>

fun mapper_map_planes ::
  "cuda_env \<Rightarrow> priv_owner \<Rightarrow> nat \<Rightarrow> nat \<Rightarrow> int \<Rightarrow> cuda_mapper \<Rightarrow> cuda_fault + (int \<times> cuda_mapper)" where
  "mapper_map_planes env p_owner n 0 ret m = Inr (ret, m)"
| "mapper_map_planes env p_owner n (Suc k) ret m =
     (if 4 \<le> n then Inl PlaneOutOfRange
      else
        (case (if is_vk p_owner then
                 (let m1 = call (Ra_vk_hold n) m in
                  if \<not> ra_vk_hold_ok env n then (True, 0, m1)
                  else
                    (let m2 = call (CuWaitExternalSemaphoresAsync n) m1 in
                     if CHECK_CU (cuWaitExternalSemaphoresAsync_ok env n) < 0
                     then (True, - 1, m2)
                     else (False, 0, m2)))
               else (False, ret, m)) of
           (True, ret1, m3) \<Rightarrow> Inr (ret1, m3)
         | (False, ret1, m3) \<Rightarrow>
             if tex m3 ! n = 0 then Inl NullTex
             else
               (let m4 = call (CuMemcpy2DAsync n) m3 in
                if CHECK_CU (cuMemcpy2DAsync_ok env n) < 0 then Inr (- 1, m4)
                else if is_vk p_owner then
                  (let m5 = call (CuSignalExternalSemaphoresAsync n) m4 in
                   if CHECK_CU (cuSignalExternalSemaphoresAsync_ok env n) < 0 then Inr (- 1, m5)
                   else mapper_map_planes env p_owner (Suc n) k 0 (call (Ra_vk_release n) m5))
                else mapper_map_planes env p_owner (Suc n) k 0 m4)))"

definition cuda_mapper_map ::
  "cuda_env \<Rightarrow> priv_owner \<Rightarrow> cuda_mapper \<Rightarrow> cuda_fault + (int \<times> cuda_mapper)" where
  "cuda_mapper_map env p_owner m =
     (case cuCtxPushCurrent env (display_ctx m) m of
        (ret, m1) \<Rightarrow>
          if ret < 0 then Inr (ret, m1)
          else
            (case mapper_map_planes env p_owner 0 (layout_num_planes m1) ret m1 of
               Inl f \<Rightarrow> Inl f
             | Inr (ret', m2) \<Rightarrow>
                 (case cuCtxPopCurrent env m2 of
                    (eret, m3) \<Rightarrow>
                      if eret < 0 then Inr (eret, m3) else Inr (ret', m3))))"

section \<open>VA-API interop (the vaapi hwdec driver)\<close>

subsection \<open>The exported surface and the objects made from it\<close>

text \<open>
  \<open>VADRMPRIMESurfaceDescriptor\<close>: the DMA-BUF objects of the surface and its
  layers; of a layer the code reads the plane count and the first entries of
  \<open>object_index\<close> and \<open>offset\<close>. Both arrays have four entries in C; here they
  are lists whose lengths are \<open>num_objects\<close> and \<open>num_layers\<close>.
\<close>

record va_object =
  obj_fd :: int
  obj_size :: nat

record va_layer =
  num_planes :: nat
  object_index0 :: nat
  offset0 :: nat

record va_desc =
  fourcc :: nat
  objects :: "va_object list"
  layers :: "va_layer list"

definition VA_FOURCC_YV12 :: nat where
  "VA_FOURCC_YV12 = 0x32315659"

text \<open>
  A memory object records the file descriptor and size it was imported from; a
  texture records the layer it was made for, the plane format used, the memory
  slot content it was imported from and the offset. It is created sampleable.
\<close>

datatype pl_vulkan_mem = Pl_vulkan_mem int nat

datatype ra_tex = Ra_tex nat nat "pl_vulkan_mem option" nat

datatype va_call =
    VaTerminate nat
  | Va_hwdec_devices_add "int list"
  | Pl_vulkan_mem_import pl_vulkan_mem
  | Close int
  | Pl_vulkan_mem_deref pl_vulkan_mem
  | Pl_vulkan_tex_import ra_tex
  | Pl_tex_destroy ra_tex
  | Va_ra_tex_free ra_tex
  | Pl_vulkan_release ra_tex

record vaapi_env =
  va_ra_is_gl :: bool
  ra_pl_get :: bool
  create_native_cbs :: "nat list"
  va_initialize_res :: "bool option"
  probing :: bool
  va_guess_if_emulated :: bool
  hwframe_constraints :: "nat list option"
  surface_alloc_ok :: "nat \<Rightarrow> bool"
  surface_hw_subfmt :: "nat \<Rightarrow> int"
  ra_hwdec_mapper_create_ok :: "nat \<Rightarrow> bool"
  ra_hwdec_mapper_map_ret :: "nat \<Rightarrow> int"
  vaExportSurfaceHandle_res :: "va_desc option"
  va_get_imgfmt_desc :: "nat list option"
  pl_vulkan_mem_import_ok :: "nat \<Rightarrow> bool"
  pl_vulkan_tex_import_ok :: "nat \<Rightarrow> bool"
  mppl_wrap_tex_ok :: "nat \<Rightarrow> bool"

record vaapi_mapper =
  va_tex :: "ra_tex option list"
  va_mem :: "pl_vulkan_mem option list"
  va_calls :: "va_call list"

subsection \<open>init\<close>

text \<open>
  \<open>create_native_cbs\<close> holds, for each native display type compiled in, the
  display its callback returns (0 for null); the first non-null one is taken.
\<close>

fun create_native_va_display :: "nat list \<Rightarrow> nat" where
  "create_native_va_display [] = 0"
| "create_native_va_display (d # ds) = (if d \<noteq> 0 then d else create_native_va_display ds)"

definition try_format :: "vaapi_env \<Rightarrow> nat \<Rightarrow> bool" where
  "try_format env surface =
     (if ra_hwdec_mapper_create_ok env surface then ra_hwdec_mapper_map_ret env surface \<ge> 0
      else False)"

text \<open>
  \<open>determine_working_formats\<close>: for each software format of the frame
  constraints a test surface is allocated (any failing step skips the format) and
  mapped; the formats that map are collected and the list is terminated with 0.
\<close>

fun working_formats :: "vaapi_env \<Rightarrow> nat list \<Rightarrow> int list" where
  "working_formats env [] = []"
| "working_formats env (f # fs) =
     (if surface_alloc_ok env f \<and> try_format env f
      then surface_hw_subfmt env f # working_formats env fs
      else working_formats env fs)"

definition determine_working_formats :: "vaapi_env \<Rightarrow> int list" where
  "determine_working_formats env =
     (case hwframe_constraints env of
        None \<Rightarrow> [0]
      | Some valid_sw_formats \<Rightarrow> working_formats env valid_sw_formats @ [0])"

definition vaapi_init :: "vaapi_env \<Rightarrow> int \<times> va_call list" where
  "vaapi_init env =
     (if va_ra_is_gl env then (- 1, [])
      else
        (let display = create_native_va_display (create_native_cbs env) in
         if display = 0 then (- 1, [])
         else
           (case va_initialize_res env of
              None \<Rightarrow> (- 1, [VaTerminate display])
            | Some av_device_ref \<Rightarrow>
                if \<not> av_device_ref then (- 1, [])
                else if probing env \<and> va_guess_if_emulated env then (- 1, [])
                else
                  (let formats = determine_working_formats env in
                   if formats = [] \<or> hd formats = 0 then (- 1, [])
                   else (0, [Va_hwdec_devices_add formats])))))"

subsection \<open>mapper_unmap and mapper_map\<close>

definition va_call :: "va_call \<Rightarrow> vaapi_mapper \<Rightarrow> vaapi_mapper" where
  "va_call c m = m\<lparr>va_calls := va_calls m @ [c]\<rparr>"

definition mapper_unmap_slot :: "nat \<Rightarrow> vaapi_mapper \<Rightarrow> vaapi_mapper" where
  "mapper_unmap_slot n m =
     (let m1 = (case va_tex m ! n of
                  None \<Rightarrow> m
                | Some t \<Rightarrow> va_call (Va_ra_tex_free t) (m\<lparr>va_tex := (va_tex m)[n := None]\<rparr>));
          m2 = (case va_mem m1 ! n of
                  None \<Rightarrow> m1
                | Some x \<Rightarrow> va_call (Pl_vulkan_mem_deref x) m1)
      in m2\<lparr>va_mem := (va_mem m2)[n := None]\<rparr>)"

definition vaapi_mapper_unmap :: "vaapi_mapper \<Rightarrow> vaapi_mapper" where
  "vaapi_mapper_unmap m = fold mapper_unmap_slot [0, 1, 2, 3] m"

text \<open>
  The loop over the objects, from object \<open>i\<close> on; the boolean is false when the
  code went to \<open>error\<close>.
\<close>

fun import_objects ::
  "vaapi_env \<Rightarrow> nat \<Rightarrow> va_object list \<Rightarrow> vaapi_mapper \<Rightarrow> fault + (bool \<times> vaapi_mapper)" where
  "import_objects env i [] m = Inr (True, m)"
| "import_objects env i (obj # objs) m =
     (if 4 \<le> i then Inl OutOfBounds
      else if pl_vulkan_mem_import_ok env i
      then
        (let x = Pl_vulkan_mem (obj_fd obj) (obj_size obj)
         in import_objects env (Suc i) objs
              (va_call (Pl_vulkan_mem_import x) (m\<lparr>va_mem := (va_mem m)[i := Some x]\<rparr>)))
      else Inr (False, va_call (Close (obj_fd obj)) (m\<lparr>va_mem := (va_mem m)[i := None]\<rparr>)))"

text \<open>
  The loop over the layers, from layer \<open>n\<close> on. \<open>desc_planes\<close> are the plane
  formats of the image format; past their end the entry is a null pointer, which
  the code reads through.
\<close>

fun map_layers ::
  "vaapi_env \<Rightarrow> nat list \<Rightarrow> nat \<Rightarrow> va_layer list \<Rightarrow> vaapi_mapper \<Rightarrow> fault + (bool \<times> vaapi_mapper)" where
  "map_layers env desc_planes n [] m = Inr (True, m)"
| "map_layers env desc_planes n (layer # ls) m =
     (if 4 \<le> n then Inl OutOfBounds
      else if num_planes layer > 1 then Inr (False, m)
      else if length desc_planes \<le> n then Inl NullDeref
      else if 4 \<le> object_index0 layer then Inl OutOfBounds
      else
        (let pltex = Ra_tex n (desc_planes ! n) (va_mem m ! object_index0 layer) (offset0 layer) in
         if \<not> pl_vulkan_tex_import_ok env n then Inr (False, m)
         else
           (let m1 = va_call (Pl_vulkan_tex_import pltex) m in
            if \<not> mppl_wrap_tex_ok env n then Inr (False, va_call (Pl_tex_destroy pltex) m1)
            else map_layers env desc_planes (Suc n) ls
                   (va_call (Pl_vulkan_release pltex) (m1\<lparr>va_tex := (va_tex m1)[n := Some pltex]\<rparr>)))))"

definition MPSWAP_tex :: "nat \<Rightarrow> nat \<Rightarrow> vaapi_mapper \<Rightarrow> vaapi_mapper" where
  "MPSWAP_tex a b m = m\<lparr>va_tex := (va_tex m)[a := va_tex m ! b, b := va_tex m ! a]\<rparr>"

definition vaapi_mapper_map :: "vaapi_env \<Rightarrow> vaapi_mapper \<Rightarrow> fault + (int \<times> vaapi_mapper)" where
  "vaapi_mapper_map env m =
     (case vaExportSurfaceHandle_res env of
        None \<Rightarrow> Inr (- 1, vaapi_mapper_unmap m)
      | Some desc \<Rightarrow>
          (case va_get_imgfmt_desc env of
             None \<Rightarrow> Inr (- 1, vaapi_mapper_unmap m)
           | Some desc_planes \<Rightarrow>
               (case import_objects env 0 (objects desc) m of
                  Inl f \<Rightarrow> Inl f
                | Inr (False, m1) \<Rightarrow> Inr (- 1, vaapi_mapper_unmap m1)
                | Inr (True, m1) \<Rightarrow>
                    (case map_layers env desc_planes 0 (layers desc) m1 of
                       Inl f \<Rightarrow> Inl f
                     | Inr (False, m2) \<Rightarrow> Inr (- 1, vaapi_mapper_unmap m2)
                     | Inr (True, m2) \<Rightarrow>
                         Inr (0, if fourcc desc = VA_FOURCC_YV12 then MPSWAP_tex 1 2 m2 else m2)))))"

text \<open>
  Bookkeeping over the calls: the memory objects and textures that have been
  created and not yet released.
\<close>

fun live_mem_step :: "va_call \<Rightarrow> pl_vulkan_mem multiset \<Rightarrow> pl_vulkan_mem multiset" where
  "live_mem_step (Pl_vulkan_mem_import x) s = add_mset x s"
| "live_mem_step (Pl_vulkan_mem_deref x) s = s - {#x#}"
| "live_mem_step _ s = s"

fun live_tex_step :: "va_call \<Rightarrow> ra_tex multiset \<Rightarrow> ra_tex multiset" where
  "live_tex_step (Pl_vulkan_tex_import t) s = add_mset t s"
| "live_tex_step (Pl_tex_destroy t) s = s - {#t#}"
| "live_tex_step (Va_ra_tex_free t) s = s - {#t#}"
| "live_tex_step _ s = s"

definition live_mems :: "va_call list \<Rightarrow> pl_vulkan_mem multiset" where
  "live_mems cs = fold live_mem_step cs {#}"

definition live_texs :: "va_call list \<Rightarrow> ra_tex multiset" where
  "live_texs cs = fold live_tex_step cs {#}"

definition unmapped :: "vaapi_mapper \<Rightarrow> bool" where
  "unmapped m = (va_tex m = [None, None, None, None] \<and> va_mem m = [None, None, None, None])"

section \<open>Reading the calls, and sample environments\<close>

text \<open>The calls that act on the stack of current CUDA contexts.\<close>

definition is_ctx_call :: "cuda_call \<Rightarrow> bool" where
  "is_ctx_call c = (case c of CuCtxPushCurrent _ \<Rightarrow> True | CuCtxPopCurrent \<Rightarrow> True | _ \<Rightarrow> False)"

definition ctx_calls :: "cuda_call list \<Rightarrow> cuda_call list" where
  "ctx_calls cs = filter is_ctx_call cs"

text \<open>
  An environment in which the renderer is Vulkan and every call succeeds, for a
  two-plane format with one-byte components; a mapper as allocated (zeroed), and
  the owner data \<open>cuda_init\<close> leaves for Vulkan.
\<close>

definition sample_cuda_env :: cuda_env where
  "sample_cuda_env =
     \<lparr>HAVE_GL = True, HAVE_VULKAN = True, ra_is_gl = False, gl_version = 0, gl_es = 0,
      ra_vk_get = Some True, cuda_load_functions_ret = 0,
      cuImportExternalMemory_loaded = True, cuInit_ok = True,
      cuGLGetDevices_res = Some 0, cuCtxCreate_ok = (\<lambda>_. True), decode_dev_idx = - 1,
      cuDeviceGet_res = (\<lambda>i. Some i), cuDeviceGetCount_res = Some 1,
      cuDeviceGetUuid_res = (\<lambda>_. Some 42), vk_uuid = 42,
      av_hwdevice_ctx_alloc_ok = True, av_hwdevice_ctx_init_ok = True,
      cuCtxPushCurrent_ok = True, cuCtxPopCurrent_ok = True,
      ra_get_imgfmt_desc = Some [\<lparr>pixel_size = 1, num_components = 1\<rparr>,
                                 \<lparr>pixel_size = 2, num_components = 2\<rparr>],
      mp_image_num_planes = 2,
      ra_tex_create_res = (\<lambda>n. Suc n),
      cuGraphicsGLRegisterImage_res = (\<lambda>n. Some (Suc n)),
      cuGraphicsMapResources_ok = (\<lambda>_. True),
      cuGraphicsSubResourceGetMappedArray_res = (\<lambda>n. Some (Suc n)),
      cuGraphicsUnmapResources_ok = (\<lambda>_. True),
      ra_vk_tex_get_external_info_res = (\<lambda>n. Some (10 + int n)),
      cuImportExternalMemory_res = (\<lambda>n. Some (Suc n)),
      cuExternalMemoryGetMappedMipmappedArray_ok = (\<lambda>_. True),
      cuMipmappedArrayGetLevel_res = (\<lambda>n. Some (Suc n)),
      signal_semaphore_res = (\<lambda>n. Some (Suc n, 20 + int n)),
      cuImportExternalSemaphore_ss_res = (\<lambda>n. Some (Suc n)),
      wait_semaphore_res = (\<lambda>n. Some (Suc n, 30 + int n)),
      cuImportExternalSemaphore_ws_res = (\<lambda>n. Some (Suc n)),
      ra_vk_hold_ok = (\<lambda>_. True),
      cuWaitExternalSemaphoresAsync_ok = (\<lambda>_. True),
      cuMemcpy2DAsync_ok = (\<lambda>_. True),
      cuSignalExternalSemaphoresAsync_ok = (\<lambda>_. True)\<rparr>"

definition zero_ext_buf :: ext_buf where
  "zero_ext_buf =
     \<lparr>fd = 0, mem = 0, ss = 0, signal_s = 0, signal_fd = 0, ws = 0, wait_s = 0, wait_fd = 0\<rparr>"

definition zero_mapper :: cuda_mapper where
  "zero_mapper =
     \<lparr>tex = [0, 0, 0, 0], cu_res = [0, 0, 0, 0], cu_array = [0, 0, 0, 0],
      ebuf = [zero_ext_buf, zero_ext_buf, zero_ext_buf, zero_ext_buf],
      display_ctx = 0, layout_num_planes = 0, ctx_stack = [], calls = []\<rparr>"

definition vk_owner :: priv_owner where
  "vk_owner = \<lparr>is_gl = False, is_vk = True, owner_display_ctx = 5\<rparr>"

definition gl_owner :: priv_owner where
  "gl_owner = \<lparr>is_gl = True, is_vk = False, owner_display_ctx = 5\<rparr>"

text \<open>
  \<open>same_ctx m m'\<close>: from \<open>m\<close> to \<open>m'\<close> the stack of current contexts has not
  changed and no push or pop has been called. \<open>ctx_effect env ctx m m'\<close>: what an
  operation that pushes \<open>ctx\<close>, tests the push and pops once afterwards does to
  the stack and to the calls.
\<close>

definition same_ctx :: "cuda_mapper \<Rightarrow> cuda_mapper \<Rightarrow> bool" where
  "same_ctx m m' =
     (ctx_stack m' = ctx_stack m \<and> ctx_calls (calls m') = ctx_calls (calls m) \<and>
      display_ctx m' = display_ctx m)"

definition ctx_effect :: "cuda_env \<Rightarrow> nat \<Rightarrow> cuda_mapper \<Rightarrow> cuda_mapper \<Rightarrow> bool" where
  "ctx_effect env ctx m m' =
     (if cuCtxPushCurrent_ok env
      then ctx_calls (calls m') = ctx_calls (calls m) @ [CuCtxPushCurrent ctx, CuCtxPopCurrent] \<and>
           (cuCtxPopCurrent_ok env \<longrightarrow> ctx_stack m' = ctx_stack m)
      else ctx_calls (calls m') = ctx_calls (calls m) @ [CuCtxPushCurrent ctx] \<and>
           ctx_stack m' = ctx_stack m)"

text \<open>
  The objects held in the slots of an array, and the statement that, since \<open>m0\<close>,
  what has been created and not released is exactly what the slots of \<open>m\<close> hold.
\<close>

fun somes :: "'a option list \<Rightarrow> 'a multiset" where
  "somes [] = {#}"
| "somes (None # xs) = somes xs"
| "somes (Some x # xs) = add_mset x (somes xs)"

definition accounted :: "vaapi_mapper \<Rightarrow> vaapi_mapper \<Rightarrow> bool" where
  "accounted m0 m =
     (length (va_tex m) = 4 \<and> length (va_mem m) = 4 \<and>
      live_mems (va_calls m) = live_mems (va_calls m0) + somes (va_mem m) \<and>
      live_texs (va_calls m) = live_texs (va_calls m0) + somes (va_tex m))"

text \<open>
  Every step of \<open>mapper_map\<close> succeeds: the export, the format lookup, the import
  of each object, and for each layer (of at most one plane) the texture import
  and the wrapping.
\<close>

definition map_steps_ok :: "vaapi_env \<Rightarrow> bool" where
  "map_steps_ok env =
     (case vaExportSurfaceHandle_res env of
        None \<Rightarrow> False
      | Some desc \<Rightarrow>
          va_get_imgfmt_desc env \<noteq> None \<and>
          (\<forall>i < length (objects desc). pl_vulkan_mem_import_ok env i) \<and>
          (\<forall>n < length (layers desc).
             num_planes (layers desc ! n) \<le> 1 \<and> pl_vulkan_tex_import_ok env n \<and>
             mppl_wrap_tex_ok env n))"

text \<open>
  What VA-API and the renderer promise about sizes: at most four objects and four
  layers, object indices within the array, and no more layers than the image
  format has planes. Within these bounds the function reads no array out of range.
\<close>

definition desc_in_bounds :: "va_desc \<Rightarrow> nat list \<Rightarrow> bool" where
  "desc_in_bounds desc fmts =
     (length (objects desc) \<le> 4 \<and> length (layers desc) \<le> 4 \<and>
      length (layers desc) \<le> length fmts \<and>
      (\<forall>l \<in> set (layers desc). object_index0 l < 4))"

definition in_bounds :: "vaapi_env \<Rightarrow> bool" where
  "in_bounds env =
     (case vaExportSurfaceHandle_res env of
        None \<Rightarrow> True
      | Some desc \<Rightarrow>
          (case va_get_imgfmt_desc env of
             None \<Rightarrow> True
           | Some fmts \<Rightarrow> desc_in_bounds desc fmts))"

text \<open>
  Where the texture of layer \<open>n\<close> ends up: \<open>MPSWAP\<close> exchanges slots 1 and 2 for
  the fourcc YV12.
\<close>

definition tex_slot :: "va_desc \<Rightarrow> nat \<Rightarrow> nat" where
  "tex_slot desc n =
     (if fourcc desc = VA_FOURCC_YV12 then (if n = 1 then 2 else if n = 2 then 1 else n) else n)"

text \<open>
  A three-plane surface with one object per layer, a mapper with empty slots, and
  an environment in which the renderer is Vulkan and every call succeeds.
\<close>

definition sample_desc :: va_desc where
  "sample_desc =
     \<lparr>fourcc = VA_FOURCC_YV12,
      objects = [\<lparr>obj_fd = 10, obj_size = 4096\<rparr>, \<lparr>obj_fd = 11, obj_size = 1024\<rparr>,
                 \<lparr>obj_fd = 12, obj_size = 1024\<rparr>],
      layers = [\<lparr>num_planes = 1, object_index0 = 0, offset0 = 0\<rparr>,
                \<lparr>num_planes = 1, object_index0 = 1, offset0 = 0\<rparr>,
                \<lparr>num_planes = 1, object_index0 = 2, offset0 = 0\<rparr>]\<rparr>"

definition sample_vaapi_env :: vaapi_env where
  "sample_vaapi_env =
     \<lparr>va_ra_is_gl = False, ra_pl_get = True, create_native_cbs = [0, 3],
      va_initialize_res = Some True, probing = False, va_guess_if_emulated = False,
      hwframe_constraints = Some [1, 2], surface_alloc_ok = (\<lambda>_. True),
      surface_hw_subfmt = (\<lambda>f. 100 + int f), ra_hwdec_mapper_create_ok = (\<lambda>_. True),
      ra_hwdec_mapper_map_ret = (\<lambda>_. 0), vaExportSurfaceHandle_res = Some sample_desc,
      va_get_imgfmt_desc = Some [8, 8, 8], pl_vulkan_mem_import_ok = (\<lambda>_. True),
      pl_vulkan_tex_import_ok = (\<lambda>_. True), mppl_wrap_tex_ok = (\<lambda>_. True)\<rparr>"

definition empty_mapper :: vaapi_mapper where
  "empty_mapper =
     \<lparr>va_tex = [None, None, None, None], va_mem = [None, None, None, None], va_calls = []\<rparr>"

section \<open>Lemmas on C strings\<close>

lemma strchr_None_iff: "strchr s c = None \<longleftrightarrow> c \<notin> set s"
  by (induction s) auto

lemma strchr_Some_bound: "strchr s c = Some i \<Longrightarrow> i < length s \<and> s ! i = c"
  by (induction s arbitrary: i) (auto split: if_splits)

lemma strchr_Some_first: "strchr s c = Some i \<Longrightarrow> c \<notin> set (take i s)"
  by (induction s arbitrary: i) (auto split: if_splits)

lemma strchr_from_Some_bound:
  "strchr_from s k c = Some i \<Longrightarrow> k \<le> i \<and> i < length s \<and> s ! i = c"
  by (auto simp: strchr_from_def dest!: strchr_Some_bound)

lemma count_list_split:
  "count_list s c = count_list (take n s) c + count_list (drop n s) c"
proof -
  have "count_list (take n s @ drop n s) c = count_list (take n s) c + count_list (drop n s) c"
    by (induction "take n s" arbitrary: n s) (auto simp del: append_take_drop_id)
  then show ?thesis by simp
qed

lemma split_colon_nonempty: "split_colon s \<noteq> []"
  by (induction s) (auto split: list.splits)

lemma length_split_colon: "length (split_colon s) = Suc (count_list s CHR '':'')"
  by (induction s) (auto split: list.splits simp: split_colon_nonempty)

lemma set_split_colon:
  "c \<in> set s \<Longrightarrow> c = CHR '':'' \<or> (\<exists>f \<in> set (split_colon s). c \<in> set f)"
  by (induction s) (auto split: list.splits simp: split_colon_nonempty)

lemma spec_DMP_form_colons: "spec_DMP_form s \<Longrightarrow> count_list s CHR '':'' = 2"
  using length_split_colon[of s]
  by (auto simp: spec_DMP_form_def split: list.splits)

lemma spec_DMP_form_chars:
  assumes "spec_DMP_form s" "c \<in> set s"
  shows "c = CHR '':'' \<or> is_digit c"
proof -
  from assms(1) obtain d m p
    where f: "split_colon s = [d, m, p]" "is_index d" "is_index m" "is_index p"
    by (auto simp: spec_DMP_form_def split: list.splits)
  from set_split_colon[OF assms(2)] f show ?thesis
    by (auto simp: is_index_def list_all_iff)
qed

lemma spec_DMP_form_c_str:
  assumes "spec_DMP_form s"
  shows "c_str s = s"
proof -
  have "c \<noteq> CHR 0x00" if "c \<in> set s" for c
    using spec_DMP_form_chars[OF assms that] by (auto simp: is_digit_def)
  then show ?thesis by (simp add: c_str_def)
qed

section \<open>parse_display_spec and the option validator\<close>

lemma parse_no_colon:
  "count_list s CHR '':'' = 0 \<Longrightarrow> parse_display_spec (Some s) = Inr (False, 0, 0, 0)"
  by (simp add: parse_display_spec_def strchr_None_iff[THEN iffD2] count_list_0_iff)

text \<open>
  With exactly one colon the second search returns the null pointer, and the read
  one byte past it is made all the same.
\<close>

lemma parse_one_colon:
  assumes h: "count_list s CHR '':'' = 1"
  shows "parse_display_spec (Some s) = Inl NullDeref"
proof -
  from h have "CHR '':'' \<in> set s"
    using count_list_0_iff[of s "CHR '':''"] by auto
  then obtain m where m: "strchr s CHR '':'' = Some m"
    using strchr_None_iff[of s "CHR '':''"] by (cases "strchr s CHR '':''") auto
  have b: "m < length s" "s ! m = CHR '':''"
    using strchr_Some_bound[OF m] by auto
  have "count_list (take (Suc m) s) CHR '':'' \<ge> 1"
    using b by (simp add: take_Suc_conv_app_nth)
  with h count_list_split[of s "CHR '':''" "Suc m"]
  have "count_list (drop (Suc m) s) CHR '':'' = 0" by simp
  then have "strchr (drop (Suc m) s) CHR '':'' = None"
    by (simp add: strchr_None_iff count_list_0_iff)
  then show ?thesis
    using m by (simp add: parse_display_spec_def strchr_from_def ptr_add_def deref_def)
qed

lemma parse_two_colons:
  assumes h: "2 \<le> count_list s CHR '':''"
  shows "\<exists>d m p. parse_display_spec (Some s) = Inr (True, d, m, p)"
proof -
  from h have "CHR '':'' \<in> set s"
    using count_list_0_iff[of s "CHR '':''"] by auto
  then obtain m where m: "strchr s CHR '':'' = Some m"
    using strchr_None_iff[of s "CHR '':''"] by (cases "strchr s CHR '':''") auto
  have b: "m < length s" "s ! m = CHR '':''"
    using strchr_Some_bound[OF m] by auto
  have "count_list (take m s) CHR '':'' = 0"
    using strchr_Some_first[OF m] by (simp add: count_list_0_iff)
  then have "count_list (take (Suc m) s) CHR '':'' = 1"
    using b by (simp add: take_Suc_conv_app_nth)
  with h count_list_split[of s "CHR '':''" "Suc m"]
  have "count_list (drop (Suc m) s) CHR '':'' \<noteq> 0" by simp
  then have "strchr (drop (Suc m) s) CHR '':'' \<noteq> None"
    by (simp add: strchr_None_iff count_list_0_iff)
  then obtain k where k: "strchr (drop (Suc m) s) CHR '':'' = Some k" by auto
  have "k < length s - Suc m"
    using strchr_Some_bound[OF k] by simp
  then have "Suc (Suc (m + k)) \<le> length s" by arith
  then show ?thesis
    using m k
    by (auto simp: parse_display_spec_def strchr_from_def ptr_add_def deref_def Let_def)
qed

text \<open>
  C2, as the claim states it, fails: the validator never looks at the fields, so
  \<open>a:b:c\<close>, which is neither of the form D:M:P with integer indices nor
  \<open>help\<close>, is accepted and not rejected with \<open>M_OPT_INVALID\<close>.
\<close>

theorem display_validate_spec_accepts_non_indices:
  "\<not> spec_DMP_form ''a:b:c'' \<and> ''a:b:c'' \<noteq> ''help'' \<and>
   display_validate_spec ''a:b:c'' = Inr ([], RetInt 1)"
  by (simp add: spec_DMP_form_def is_index_def is_digit_def display_validate_spec_def
      c_str_def parse_display_spec_def strchr_from_def ptr_add_def deref_def)

text \<open>
  C2, amended: the validator answers \<open>help\<close> by printing the display information
  and returning \<open>M_OPT_EXIT\<close>; it rejects with \<open>M_OPT_INVALID\<close> every other
  parameter whose C string holds no colon; it accepts (returns 1) every other
  parameter whose C string holds at least two colons, whatever stands between them,
  and so in particular every string of the form D:M:P with integer indices.
  (Parameters with exactly one colon are left out of the statement.)
\<close>

theorem display_validate_spec_by_colons:
  "display_validate_spec ''help'' = Inr ([Print_display_info], M_OPT_EXIT) \<and>
   (param \<noteq> ''help'' \<and> count_list (c_str param) CHR '':'' = 0 \<longrightarrow>
      display_validate_spec param = Inr ([Mp_fatal], M_OPT_INVALID)) \<and>
   (param \<noteq> ''help'' \<and> 2 \<le> count_list (c_str param) CHR '':'' \<longrightarrow>
      display_validate_spec param = Inr ([], RetInt 1)) \<and>
   (spec_DMP_form param \<longrightarrow> display_validate_spec param = Inr ([], RetInt 1))"
proof -
  have hlp: "display_validate_spec ''help'' = Inr ([Print_display_info], M_OPT_EXIT)"
    by (simp add: display_validate_spec_def)
  have none: "display_validate_spec param = Inr ([Mp_fatal], M_OPT_INVALID)"
    if "param \<noteq> ''help''" "count_list (c_str param) CHR '':'' = 0"
    using that parse_no_colon[of "c_str param"]
    by (simp add: display_validate_spec_def)
  have two: "display_validate_spec p = Inr ([], RetInt 1)"
    if "p \<noteq> ''help''" "2 \<le> count_list (c_str p) CHR '':''" for p
    using that parse_two_colons[of "c_str p"]
    by (auto simp: display_validate_spec_def)
  have form: "display_validate_spec param = Inr ([], RetInt 1)" if f: "spec_DMP_form param"
  proof -
    have c: "count_list param CHR '':'' = 2"
      by (rule spec_DMP_form_colons[OF f])
    then have "param \<noteq> ''help''" by auto
    with two[of param] c spec_DMP_form_c_str[OF f] show ?thesis by simp
  qed
  from hlp none two form show ?thesis by blast
qed

theorem display_validate_spec_by_colons_witness:
  "display_validate_spec ''0:0:0'' = Inr ([], RetInt 1) \<and>
   spec_DMP_form ''0:0:0'' \<and>
   display_validate_spec ''1:2:3:4'' = Inr ([], RetInt 1) \<and>
   display_validate_spec ''7'' = Inr ([Mp_fatal], M_OPT_INVALID)"
proof -
  have f: "spec_DMP_form ''0:0:0''"
    by (simp add: spec_DMP_form_def is_index_def is_digit_def)
  have a: "''1:2:3:4'' \<noteq> ''help'' \<and> 2 \<le> count_list (c_str ''1:2:3:4'') CHR '':''"
    by (simp add: c_str_def)
  have b: "''7'' \<noteq> ''help'' \<and> count_list (c_str ''7'') CHR '':'' = 0"
    by (simp add: c_str_def)
  show ?thesis
    using f a b
      display_validate_spec_by_colons[of "''0:0:0''"]
      display_validate_spec_by_colons[of "''1:2:3:4''"]
      display_validate_spec_by_colons[of "''7''"]
    by blast
qed

text \<open>
  C3: the claim asks that \<open>*(plane_ptr + 1)\<close> be read only when the second colon
  was found. In the code the read stands outside that test: on the input \<open>0:0\<close>,
  which has one colon, \<open>plane_ptr\<close> is null and the function reads through the
  null-derived pointer.
\<close>

theorem parse_display_spec_one_colon_null_read:
  "parse_display_spec (Some ''0:0'') = Inl NullDeref \<and>
   display_validate_spec ''0:0'' = Inl NullDeref"
  by (simp add: display_validate_spec_def c_str_def parse_display_spec_def
      strchr_from_def ptr_add_def deref_def)

section \<open>The CUDA driver: context stack and return codes\<close>

lemma same_ctx_refl: "same_ctx m m" by (simp add: same_ctx_def)
lemma same_ctx_trans: "same_ctx a b \<Longrightarrow> same_ctx b c \<Longrightarrow> same_ctx a c" by (simp add: same_ctx_def)

lemma same_ctx_call: "\<not> is_ctx_call c \<Longrightarrow> same_ctx m m' \<Longrightarrow> same_ctx m (call c m')"
  by (simp add: same_ctx_def call_def ctx_calls_def)

lemma same_ctx_upd_ebuf: "same_ctx m m' \<Longrightarrow> same_ctx m (upd_ebuf n f m')"
  by (simp add: same_ctx_def upd_ebuf_def)

lemma same_ctx_fields:
  "same_ctx m m' \<Longrightarrow> same_ctx m (m'\<lparr>tex := t\<rparr>)"
  "same_ctx m m' \<Longrightarrow> same_ctx m (m'\<lparr>cu_res := r\<rparr>)"
  "same_ctx m m' \<Longrightarrow> same_ctx m (m'\<lparr>cu_array := a\<rparr>)"
  by (simp_all add: same_ctx_def)

lemma is_ctx_call_simps:
  "\<not> is_ctx_call (Ra_vk_tex_get_external_info n)"
  "\<not> is_ctx_call (CuImportExternalMemory n)"
  "\<not> is_ctx_call (CuExternalMemoryGetMappedMipmappedArray n)"
  "\<not> is_ctx_call (CuMipmappedArrayGetLevel n)"
  "\<not> is_ctx_call (Ra_vk_create_external_semaphore n)"
  "\<not> is_ctx_call (CuImportExternalSemaphore n)"
  "\<not> is_ctx_call (Ra_tex_create n)"
  "\<not> is_ctx_call (CuGraphicsGLRegisterImage n)"
  "\<not> is_ctx_call (CuGraphicsMapResources n)"
  "\<not> is_ctx_call (CuGraphicsSubResourceGetMappedArray n)"
  "\<not> is_ctx_call (CuGraphicsUnmapResources n)"
  "\<not> is_ctx_call (CuGraphicsUnregisterResource n)"
  "\<not> is_ctx_call (CuDestroyExternalMemory n)"
  "\<not> is_ctx_call (CuDestroyExternalSemaphore n)"
  "\<not> is_ctx_call (Close_fd i)"
  "\<not> is_ctx_call (VkDestroySemaphore n)"
  "\<not> is_ctx_call Mpvk_poll_commands"
  "\<not> is_ctx_call (Ra_tex_free n)"
  "\<not> is_ctx_call (Ra_vk_hold n)"
  "\<not> is_ctx_call (Ra_vk_release n)"
  "\<not> is_ctx_call (CuWaitExternalSemaphoresAsync n)"
  "\<not> is_ctx_call (CuMemcpy2DAsync n)"
  "\<not> is_ctx_call (CuSignalExternalSemaphoresAsync n)"
  by (simp_all add: is_ctx_call_def)

lemmas same_ctx_intros = same_ctx_refl same_ctx_call same_ctx_upd_ebuf same_ctx_fields is_ctx_call_simps

lemma cuda_ebuf_init_same_ctx:
  "cuda_ebuf_init env m format n = Inr (b, m') \<Longrightarrow> same_ctx m m'"
  unfolding cuda_ebuf_init_def Let_def
  by (auto split: option.splits if_splits prod.splits intro!: same_ctx_intros)

lemma mapper_init_gl_plane_same_ctx:
  "mapper_init_gl_plane env n m = (r, m') \<Longrightarrow> same_ctx m m'"
  unfolding mapper_init_gl_plane_def Let_def
  by (auto split: option.splits if_splits prod.splits intro!: same_ctx_intros)

lemma mapper_init_planes_same_ctx:
  "mapper_init_planes env po n fs ret m = Inr (r, m') \<Longrightarrow> same_ctx m m'"
proof (induction fs arbitrary: n ret m)
  case Nil
  then show ?case by (simp add: same_ctx_refl)
next
  case (Cons f fs)
  from Cons.prems show ?case
    by (auto simp: Let_def same_ctx_def call_def ctx_calls_def is_ctx_call_def
        split: if_splits sum.splits prod.splits
        dest!: Cons.IH cuda_ebuf_init_same_ctx mapper_init_gl_plane_same_ctx)
qed

lemma mapper_map_planes_same_ctx:
  "mapper_map_planes env po n k ret m = Inr (r, m') \<Longrightarrow> same_ctx m m'"
proof (induction k arbitrary: n ret m)
  case 0
  then show ?case by (simp add: same_ctx_refl)
next
  case (Suc k)
  from Suc.prems show ?case
    by (auto simp: Let_def same_ctx_def call_def ctx_calls_def is_ctx_call_def
        split: if_splits sum.splits prod.splits
        dest!: Suc.IH)
qed

lemma cuda_ebuf_uninit_same_ctx: "same_ctx m (cuda_ebuf_uninit n m)"
  by (simp add: cuda_ebuf_uninit_def Let_def same_ctx_def call_def ctx_calls_def is_ctx_call_def)

lemma mapper_uninit_plane_same_ctx: "same_ctx m (mapper_uninit_plane env n m)"
  using cuda_ebuf_uninit_same_ctx[of "m\<lparr>cu_res := (cu_res m)[n := 0]\<rparr>" n]
    cuda_ebuf_uninit_same_ctx[of "(call (CuGraphicsUnregisterResource (cu_res m ! n)) m)\<lparr>cu_res := (cu_res m)[n := 0]\<rparr>" n]
  by (simp add: mapper_uninit_plane_def Let_def same_ctx_def call_def ctx_calls_def is_ctx_call_def)

lemma uninit_planes_same_ctx: "same_ctx m (fold (mapper_uninit_plane env) ns m)"
proof (induction ns arbitrary: m)
  case Nil show ?case by (simp add: same_ctx_refl)
next
  case (Cons n ns)
  show ?case using mapper_uninit_plane_same_ctx[of m env n] Cons[of "mapper_uninit_plane env n m"]
    by (auto intro: same_ctx_trans)
qed


lemma push_then_pop:
  assumes "same_ctx (snd (cuCtxPushCurrent env ctx m)) m2" "cuCtxPushCurrent_ok env"
  shows "ctx_calls (calls (snd (cuCtxPopCurrent env m2))) =
           ctx_calls (calls m) @ [CuCtxPushCurrent ctx, CuCtxPopCurrent] \<and>
         (cuCtxPopCurrent_ok env \<longrightarrow> ctx_stack (snd (cuCtxPopCurrent env m2)) = ctx_stack m)"
  using assms
  by (simp add: same_ctx_def cuCtxPushCurrent_def cuCtxPopCurrent_def call_def ctx_calls_def is_ctx_call_def)

lemma init_ctx:
  assumes r: "cuda_mapper_init env po m = Inr (ret, m')"
  shows "case ra_get_imgfmt_desc env of
           None \<Rightarrow> same_ctx (m\<lparr>display_ctx := owner_display_ctx po\<rparr>) m'
         | Some _ \<Rightarrow> ctx_effect env (owner_display_ctx po) m m'"
proof (cases "ra_get_imgfmt_desc env")
  case None
  with r show ?thesis by (auto simp: cuda_mapper_init_def same_ctx_def)
next
  case (Some planes)
  let ?m0 = "m\<lparr>display_ctx := owner_display_ctx po, layout_num_planes := mp_image_num_planes env\<rparr>"
  let ?c = "owner_display_ctx po"
  show ?thesis
  proof (cases "cuCtxPushCurrent_ok env")
    case False
    with r Some show ?thesis
      by (auto simp: cuda_mapper_init_def ctx_effect_def cuCtxPushCurrent_def call_def ctx_calls_def is_ctx_call_def)
  next
    case True
    from r Some True obtain r2 m2 where
      l: "mapper_init_planes env po 0 planes 0 (snd (cuCtxPushCurrent env ?c ?m0)) = Inr (r2, m2)"
      and m': "m' = snd (cuCtxPopCurrent env m2)"
      by (auto simp: cuda_mapper_init_def cuCtxPushCurrent_def split: sum.splits prod.splits if_splits)
    from push_then_pop[OF mapper_init_planes_same_ctx[OF l] True] m' Some True
    show ?thesis by (simp add: ctx_effect_def)
  qed
qed

lemma map_ctx:
  assumes r: "cuda_mapper_map env po m = Inr (ret, m')"
  shows "ctx_effect env (display_ctx m) m m'"
proof (cases "cuCtxPushCurrent_ok env")
  case False
  with r show ?thesis
    by (auto simp: cuda_mapper_map_def ctx_effect_def cuCtxPushCurrent_def call_def ctx_calls_def is_ctx_call_def)
next
  case True
  let ?c = "display_ctx m"
  from r True obtain r2 m2 where
    l: "mapper_map_planes env po 0 (layout_num_planes m) 0 (snd (cuCtxPushCurrent env ?c m)) = Inr (r2, m2)"
    and m': "m' = snd (cuCtxPopCurrent env m2)"
    by (auto simp: cuda_mapper_map_def cuCtxPushCurrent_def call_def split: sum.splits prod.splits if_splits)
  from push_then_pop[OF mapper_map_planes_same_ctx[OF l] True] m' True
  show ?thesis by (simp add: ctx_effect_def)
qed

lemma uninit_stack:
  "ctx_stack (cuda_mapper_uninit env po m) =
     (let s1 = (if cuCtxPushCurrent_ok env then display_ctx m # ctx_stack m else ctx_stack m)
      in if cuCtxPopCurrent_ok env \<and> s1 \<noteq> [] then tl s1 else s1) \<and>
   ctx_calls (calls (cuda_mapper_uninit env po m)) =
     ctx_calls (calls m) @ [CuCtxPushCurrent (display_ctx m), CuCtxPopCurrent]"
proof -
  define m0 where "m0 = (if HAVE_VULKAN env \<and> is_vk po then call Mpvk_poll_commands m else m)"
  define m1 where "m1 = snd (cuCtxPushCurrent env (display_ctx m0) m0)"
  define m2 where "m2 = fold (mapper_uninit_plane env) [0, 1, 2, 3] m1"
  have u: "cuda_mapper_uninit env po m = snd (cuCtxPopCurrent env m2)"
    by (simp add: cuda_mapper_uninit_def Let_def m0_def m1_def m2_def)
  have s: "same_ctx m1 m2" unfolding m2_def by (rule uninit_planes_same_ctx)
  have d: "display_ctx m0 = display_ctx m" "ctx_stack m0 = ctx_stack m"
    "ctx_calls (calls m0) = ctx_calls (calls m)"
    by (simp_all add: m0_def call_def ctx_calls_def is_ctx_call_def)
  have p: "ctx_stack m1 = (if cuCtxPushCurrent_ok env then display_ctx m # ctx_stack m else ctx_stack m)"
    "ctx_calls (calls m1) = ctx_calls (calls m) @ [CuCtxPushCurrent (display_ctx m)]"
    using d by (simp_all add: m1_def cuCtxPushCurrent_def call_def ctx_calls_def is_ctx_call_def)
  from s p have q: "ctx_stack m2 = (if cuCtxPushCurrent_ok env then display_ctx m # ctx_stack m else ctx_stack m)"
    "ctx_calls (calls m2) = ctx_calls (calls m) @ [CuCtxPushCurrent (display_ctx m)]"
    by (simp_all add: same_ctx_def)
  show ?thesis unfolding u using q
    by (simp add: cuCtxPopCurrent_def call_def ctx_calls_def is_ctx_call_def Let_def)
qed

lemma mapper_init_planes_vk_nonneg:
  assumes "is_vk po" "\<not> is_gl po" "\<forall>n. ra_tex_create_res env n \<noteq> 0"
    and "mapper_init_planes env po n fs ret m = Inr (r, m')" "0 \<le> ret"
  shows "0 \<le> r"
  using assms(4,5)
proof (induction fs arbitrary: n ret m)
  case Nil
  then show ?case by simp
next
  case (Cons f fs)
  have t: "ra_tex_create_res env n \<noteq> 0"
    using assms(3) by simp
  from Cons.prems assms(1,2) t show ?case
    by (auto simp: Let_def split: if_splits sum.splits prod.splits dest!: Cons.IH)
qed

text \<open>
  In the Vulkan path, once every texture is created, nothing \<open>cuda_ebuf_init\<close>
  does can make \<open>mapper_init\<close> return a negative code.
\<close>

lemma cuda_mapper_init_vk_nonneg:
  assumes "is_vk po" "\<not> is_gl po" "\<forall>n. ra_tex_create_res env n \<noteq> 0"
    and "ra_get_imgfmt_desc env \<noteq> None" "cuCtxPushCurrent_ok env" "cuCtxPopCurrent_ok env"
    and r: "cuda_mapper_init env po m = Inr (ret, m')"
  shows "0 \<le> ret"
proof -
  from assms(4) obtain planes where p: "ra_get_imgfmt_desc env = Some planes" by auto
  let ?m0 = "m\<lparr>display_ctx := owner_display_ctx po, layout_num_planes := mp_image_num_planes env\<rparr>"
  let ?m1 = "snd (cuCtxPushCurrent env (owner_display_ctx po) ?m0)"
  from r p assms(5) obtain r2 m2 where
    l: "mapper_init_planes env po 0 planes 0 ?m1 = Inr (r2, m2)"
    and e: "ret = (if fst (cuCtxPopCurrent env m2) < 0 then fst (cuCtxPopCurrent env m2) else r2)"
    by (auto simp: cuda_mapper_init_def cuCtxPushCurrent_def split: sum.splits prod.splits if_splits)
  have "0 \<le> r2"
    by (rule mapper_init_planes_vk_nonneg[OF assms(1-3) l]) simp
  moreover have "ctx_stack m2 \<noteq> []"
    using mapper_init_planes_same_ctx[OF l] assms(5)
    by (simp add: same_ctx_def cuCtxPushCurrent_def call_def)
  ultimately show ?thesis
    using e assms(6) by (simp add: cuCtxPopCurrent_def)
qed

text \<open>
  The operations return (no read out of range, no division by zero) when the
  format has at most four planes with at least one component each and, for
  \<open>mapper_map\<close>, when the textures of the planes exist.
\<close>

lemma cuda_ebuf_init_returns:
  "num_components format \<noteq> 0 \<Longrightarrow> \<exists>r. cuda_ebuf_init env m format n = Inr r"
  by (auto simp: cuda_ebuf_init_def Let_def split: option.splits)

lemma mapper_init_planes_returns:
  assumes "n + length fs \<le> 4" "\<forall>f \<in> set fs. num_components f \<noteq> 0"
  shows "\<exists>r. mapper_init_planes env po n fs ret m = Inr r"
  using assms
proof (induction fs arbitrary: n ret m)
  case Nil
  then show ?case by simp
next
  case (Cons f fs)
  from Cons.prems have n: "\<not> 4 \<le> n" "Suc n + length fs \<le> 4" "\<forall>f \<in> set fs. num_components f \<noteq> 0"
    and c: "num_components f \<noteq> 0" by simp_all
  note ih = Cons.IH[OF n(2,3)]
  let ?m1 = "call (Ra_tex_create n) (m\<lparr>tex := (tex m)[n := ra_tex_create_res env n]\<rparr>)"
  from cuda_ebuf_init_returns[OF c, of env ?m1 n] obtain b m2
    where e: "cuda_ebuf_init env ?m1 f n = Inr (b, m2)" by auto
  obtain r1 m3 where g: "mapper_init_gl_plane env n ?m1 = (r1, m3)"
    by (cases "mapper_init_gl_plane env n ?m1")
  show ?case
    using n(1) e g ih[of "if b then 1 else 0" m2] ih[of r1 m3] ih[of ret ?m1]
    by (auto simp: Let_def)
qed

lemma cuda_mapper_init_returns:
  assumes "\<forall>fs. ra_get_imgfmt_desc env = Some fs \<longrightarrow>
             length fs \<le> 4 \<and> (\<forall>f \<in> set fs. num_components f \<noteq> 0)"
  shows "\<exists>r. cuda_mapper_init env po m = Inr r"
proof (cases "ra_get_imgfmt_desc env")
  case None
  then show ?thesis by (simp add: cuda_mapper_init_def)
next
  case (Some fs)
  with assms have b: "0 + length fs \<le> 4" "\<forall>f \<in> set fs. num_components f \<noteq> 0" by simp_all
  let ?m0 = "m\<lparr>display_ctx := owner_display_ctx po, layout_num_planes := mp_image_num_planes env\<rparr>"
  obtain r0 m1 where p: "cuCtxPushCurrent env (display_ctx ?m0) ?m0 = (r0, m1)"
    by (cases "cuCtxPushCurrent env (display_ctx ?m0) ?m0")
  from mapper_init_planes_returns[OF b, of env po r0 m1] obtain r2 m2
    where l: "mapper_init_planes env po 0 fs r0 m1 = Inr (r2, m2)" by auto
  from Some p l show ?thesis
    by (auto simp: cuda_mapper_init_def Let_def split: prod.splits)
qed

lemma mapper_map_planes_returns:
  assumes "n + k \<le> 4" "\<forall>j. n \<le> j \<and> j < n + k \<longrightarrow> tex m ! j \<noteq> 0"
  shows "\<exists>r m'. mapper_map_planes env po n k ret m = Inr (r, m')"
  using assms
proof (induction k arbitrary: n ret m)
  case 0
  then show ?case by simp
next
  case (Suc k)
  from Suc.prems have n: "\<not> 4 \<le> n" "Suc n + k \<le> 4" and t: "tex m ! n \<noteq> 0"
    and rest: "\<forall>j. Suc n \<le> j \<and> j < Suc n + k \<longrightarrow> tex m ! j \<noteq> 0"
    by simp_all
  have ih: "\<exists>r m''. mapper_map_planes env po (Suc n) k ret' m' = Inr (r, m'')"
    if "tex m' = tex m" for ret' m'
    using Suc.IH[OF n(2), of m' ret'] rest that by simp
  show ?case
    using n(1) t
    by (auto simp: Let_def call_def intro!: ih)
qed

lemma cuda_mapper_map_returns:
  assumes "layout_num_planes m \<le> 4" "\<forall>j < layout_num_planes m. tex m ! j \<noteq> 0"
  shows "\<exists>r. cuda_mapper_map env po m = Inr r"
proof -
  let ?m1 = "snd (cuCtxPushCurrent env (display_ctx m) m)"
  have t: "tex ?m1 = tex m" "layout_num_planes ?m1 = layout_num_planes m"
    by (simp_all add: cuCtxPushCurrent_def call_def)
  obtain r0 m1 where p: "cuCtxPushCurrent env (display_ctx m) m = (r0, m1)"
    by (cases "cuCtxPushCurrent env (display_ctx m) m")
  with t have t1: "tex m1 = tex m" "layout_num_planes m1 = layout_num_planes m" by simp_all
  from assms t1 obtain r2 m2
    where l: "mapper_map_planes env po 0 (layout_num_planes m1) r0 m1 = Inr (r2, m2)"
    using mapper_map_planes_returns[of 0 "layout_num_planes m1" m1 env po r0] by auto
  from p l show ?thesis
    by (auto simp: cuda_mapper_map_def split: prod.splits)
qed

text \<open>
  C4: when the renderer is neither OpenGL nor Vulkan, \<open>cuda_init\<close> returns \<open>-1\<close>
  having made no call at all: no CUDA context has been created and no hwdec
  device has been registered.
\<close>

theorem cuda_init_neither_backend:
  "\<not> ra_is_gl env \<Longrightarrow> ra_vk_get env = None \<Longrightarrow> cuda_init env = (- 1, [])"
  by (simp add: cuda_init_def p_is_gl_def p_is_vk_def)

theorem cuda_init_neither_backend_witness:
  "cuda_init (sample_cuda_env\<lparr>ra_vk_get := None\<rparr>) = (- 1, [])"
  using cuda_init_neither_backend[of "sample_cuda_env\<lparr>ra_vk_get := None\<rparr>"]
  by (simp add: sample_cuda_env_def)

text \<open>
  C7, as the claim states it, fails for \<open>mapper_uninit\<close>: it does not test the
  push, so when \<open>cuCtxPushCurrent\<close> fails the pop that follows takes off a context
  the operation did not push. Here the stack holds context 7 before and is empty
  after.
\<close>

theorem cuda_mapper_uninit_changes_stack:
  "ctx_stack (zero_mapper\<lparr>ctx_stack := [7]\<rparr>) = [7] \<and>
   ctx_stack (cuda_mapper_uninit (sample_cuda_env\<lparr>cuCtxPushCurrent_ok := False\<rparr>) vk_owner
                (zero_mapper\<lparr>ctx_stack := [7]\<rparr>)) = []"
  by (simp add: uninit_stack sample_cuda_env_def zero_mapper_def)

text \<open>
  C7, amended: \<open>mapper_init\<close> (once the format is known to the renderer) and
  \<open>mapper_map\<close> call \<open>cuCtxPushCurrent\<close> once; if it fails they return without
  a pop and the stack is as before; if it succeeds they call \<open>cuCtxPopCurrent\<close>
  exactly once before returning, on the success path and on every error path, and
  the stack is as before whenever that pop succeeds. \<open>mapper_init\<close> for a format
  unknown to the renderer returns before the push. \<open>mapper_uninit\<close> calls the
  push once and the pop once whatever the push returned; it leaves the stack
  unchanged when both succeed.
\<close>

theorem cuda_mapper_push_pop_balance:
  "(cuda_mapper_init env po m = Inr (ret, m') \<and> ra_get_imgfmt_desc env \<noteq> None \<longrightarrow>
      ctx_effect env (owner_display_ctx po) m m') \<and>
   (cuda_mapper_init env po m = Inr (ret, m') \<and> ra_get_imgfmt_desc env = None \<longrightarrow>
      ctx_stack m' = ctx_stack m \<and> ctx_calls (calls m') = ctx_calls (calls m)) \<and>
   (cuda_mapper_map env po m = Inr (ret, m') \<longrightarrow> ctx_effect env (display_ctx m) m m') \<and>
   ctx_calls (calls (cuda_mapper_uninit env po m)) =
     ctx_calls (calls m) @ [CuCtxPushCurrent (display_ctx m), CuCtxPopCurrent] \<and>
   (cuCtxPushCurrent_ok env \<and> cuCtxPopCurrent_ok env \<longrightarrow>
      ctx_stack (cuda_mapper_uninit env po m) = ctx_stack m)"
proof -
  have i: "cuda_mapper_init env po m = Inr (ret, m') \<Longrightarrow>
           (case ra_get_imgfmt_desc env of
              None \<Rightarrow> same_ctx (m\<lparr>display_ctx := owner_display_ctx po\<rparr>) m'
            | Some _ \<Rightarrow> ctx_effect env (owner_display_ctx po) m m')"
    by (rule init_ctx)
  have a: "ctx_effect env (owner_display_ctx po) m m'"
    if "cuda_mapper_init env po m = Inr (ret, m')" "ra_get_imgfmt_desc env \<noteq> None"
    using i[OF that(1)] that(2) by (auto split: option.splits)
  have b: "ctx_stack m' = ctx_stack m \<and> ctx_calls (calls m') = ctx_calls (calls m)"
    if "cuda_mapper_init env po m = Inr (ret, m')" "ra_get_imgfmt_desc env = None"
    using i[OF that(1)] that(2) by (simp add: same_ctx_def)
  have c: "ctx_effect env (display_ctx m) m m'" if "cuda_mapper_map env po m = Inr (ret, m')"
    using that by (rule map_ctx)
  have d: "ctx_calls (calls (cuda_mapper_uninit env po m)) =
             ctx_calls (calls m) @ [CuCtxPushCurrent (display_ctx m), CuCtxPopCurrent]"
    using uninit_stack[of env po m] by simp
  have e: "ctx_stack (cuda_mapper_uninit env po m) = ctx_stack m"
    if "cuCtxPushCurrent_ok env" "cuCtxPopCurrent_ok env"
    using uninit_stack[of env po m] that by simp
  from a b c d e show ?thesis by blast
qed

lemmas cuda_eval =
  cuda_mapper_init_def cuda_mapper_map_def sample_cuda_env_def vk_owner_def zero_mapper_def
  zero_ext_buf_def cuCtxPushCurrent_def cuCtxPopCurrent_def call_def cuda_ebuf_init_def
  upd_ebuf_def CHECK_CU_def Let_def

theorem cuda_mapper_push_pop_balance_witness:
  "ctx_calls (calls (snd (projr (cuda_mapper_init sample_cuda_env vk_owner zero_mapper)))) =
     [CuCtxPushCurrent 5, CuCtxPopCurrent] \<and>
   ctx_stack (snd (projr (cuda_mapper_init sample_cuda_env vk_owner zero_mapper))) = [] \<and>
   ctx_stack (snd (projr (cuda_mapper_map (sample_cuda_env\<lparr>cuMemcpy2DAsync_ok := (\<lambda>_. False)\<rparr>)
      vk_owner (zero_mapper\<lparr>tex := [1, 2, 0, 0], layout_num_planes := 2, ctx_stack := [3]\<rparr>)))) =
     [3] \<and>
   ctx_stack (cuda_mapper_uninit sample_cuda_env vk_owner (zero_mapper\<lparr>ctx_stack := [3]\<rparr>)) = [3]"
proof -
  let ?e2 = "sample_cuda_env\<lparr>cuMemcpy2DAsync_ok := (\<lambda>_. False)\<rparr>"
  let ?m2 = "zero_mapper\<lparr>tex := [1, 2, 0, 0], layout_num_planes := 2, ctx_stack := [3]\<rparr>"
  obtain r1 m1 where a: "cuda_mapper_init sample_cuda_env vk_owner zero_mapper = Inr (r1, m1)"
    by (simp add: cuda_eval)
  obtain r2 m2 where b: "cuda_mapper_map ?e2 vk_owner ?m2 = Inr (r2, m2)"
    by (simp add: cuda_eval numeral_2_eq_2)
  have c: "ra_get_imgfmt_desc sample_cuda_env \<noteq> None"
    "cuCtxPushCurrent_ok sample_cuda_env" "cuCtxPopCurrent_ok sample_cuda_env"
    "cuCtxPushCurrent_ok ?e2" "cuCtxPopCurrent_ok ?e2"
    by (simp_all add: sample_cuda_env_def)
  have z: "ctx_stack zero_mapper = []" "calls zero_mapper = []" "ctx_stack ?m2 = [3]"
    "display_ctx ?m2 = 0" "owner_display_ctx vk_owner = 5"
    by (simp_all add: zero_mapper_def vk_owner_def)
  from cuda_mapper_push_pop_balance[of sample_cuda_env vk_owner zero_mapper r1 m1] a c
  have 1: "ctx_effect sample_cuda_env 5 zero_mapper m1"
    by (simp add: z)
  from cuda_mapper_push_pop_balance[of ?e2 vk_owner ?m2 r2 m2] b
  have 2: "ctx_effect ?e2 0 ?m2 m2"
    by (simp only: z)
  from cuda_mapper_push_pop_balance[of sample_cuda_env vk_owner "zero_mapper\<lparr>ctx_stack := [3]\<rparr>"] c
  have 3: "ctx_stack (cuda_mapper_uninit sample_cuda_env vk_owner (zero_mapper\<lparr>ctx_stack := [3]\<rparr>)) = [3]"
    by simp
  from 1 2 3 a b c z show ?thesis
    by (simp add: ctx_effect_def ctx_calls_def)
qed

text \<open>
  C8: the claim asks that a failing \<open>cuda_ebuf_init\<close> make \<open>mapper_init\<close>
  return a negative code. \<open>cuda_ebuf_init\<close> returns \<open>false\<close>, which
  \<open>mapper_init\<close> stores in the \<open>int\<close> \<open>ret\<close> as 0 and tests with
  \<open>ret < 0\<close>: the test never holds, the loop goes on and the function reports
  success. Here the renderer is Vulkan, every texture is created, and
  \<open>ra_vk_tex_get_external_info\<close> fails for each plane: \<open>cuda_ebuf_init\<close> gives
  false and \<open>mapper_init\<close> returns 0.
\<close>

theorem cuda_mapper_init_ignores_ebuf_failure:
  "cuda_ebuf_init (sample_cuda_env\<lparr>ra_vk_tex_get_external_info_res := (\<lambda>n. None)\<rparr>) zero_mapper
     \<lparr>pixel_size = 1, num_components = 1\<rparr> 0 =
     Inr (False, call (Ra_vk_tex_get_external_info 0) zero_mapper) \<and>
   \<not> isl (cuda_mapper_init (sample_cuda_env\<lparr>ra_vk_tex_get_external_info_res := (\<lambda>n. None)\<rparr>)
            vk_owner zero_mapper) \<and>
   fst (projr (cuda_mapper_init (sample_cuda_env\<lparr>ra_vk_tex_get_external_info_res := (\<lambda>n. None)\<rparr>)
                 vk_owner zero_mapper)) = 0"
  by (simp add: cuda_eval)

section \<open>Display selection\<close>

lemma scan_plane_displays_result:
  assumes "0 \<notin> set supp"
  shows "scan_plane_displays (Some sel) disp k (supp @ [0]) fp =
           (if disp \<in> set supp \<and> plane_idx sel = int k then int k else fp)"
  using assms by (induction supp arbitrary: fp) auto

lemma scan_planes_result:
  assumes "\<forall>p \<in> set ps. supported_displays p \<noteq> [] \<and> supported_res_ok p \<and> 0 \<notin> set (supported_displays p)"
  shows "scan_planes (Some sel) disp k (map plane_displays_entry ps) fp =
           Inr (if \<exists>j < length ps. plane_idx sel = int (k + j) \<and> disp \<in> set (supported_displays (ps ! j))
                then plane_idx sel else fp)"
  using assms
proof (induction ps arbitrary: k fp)
  case Nil
  then show ?case by simp
next
  case (Cons p ps)
  have e: "plane_displays_entry p = Some (supported_displays p @ [0])"
    using Cons.prems by (simp add: plane_displays_entry_def)
  have z: "0 \<notin> set (supported_displays p)" using Cons.prems by simp
  have rest: "\<forall>p \<in> set ps. supported_displays p \<noteq> [] \<and> supported_res_ok p \<and> 0 \<notin> set (supported_displays p)"
    using Cons.prems by simp
  have ex: "(\<exists>j < length (p # ps). plane_idx sel = int (k + j) \<and> disp \<in> set (supported_displays ((p # ps) ! j))) \<longleftrightarrow>
        (plane_idx sel = int k \<and> disp \<in> set (supported_displays p)) \<or>
        (\<exists>j < length ps. plane_idx sel = int (Suc k + j) \<and> disp \<in> set (supported_displays (ps ! j)))"
    by (auto simp: less_Suc_eq_0_disj)
  show ?case
    unfolding ex using Cons.IH[OF rest, of "Suc k"]
    by (auto simp: e scan_plane_displays_result[OF z])
qed

lemma scan_modes_result:
  "scan_modes (Some sel) k ms out =
     (if int k \<le> mode_idx sel \<and> mode_idx sel < int k + int (length ms)
      then Some (ms ! (nat (mode_idx sel) - k)) else out)"
proof (induction ms arbitrary: k out)
  case Nil
  show ?case by auto
next
  case (Cons m ms)
  show ?case
  proof (cases "mode_idx sel = int k")
    case True
    then show ?thesis using Cons.IH[of "Suc k" "Some m"] by simp
  next
    case False
    have "(m # ms) ! (nat (mode_idx sel) - k) = ms ! (nat (mode_idx sel) - Suc k)"
      if "int k < mode_idx sel"
    proof -
      from that have "nat (mode_idx sel) - k = Suc (nat (mode_idx sel) - Suc k)" by arith
      then show ?thesis by simp
    qed
    with False show ?thesis using Cons.IH[of "Suc k" out] by auto
  qed
qed

lemma walk_displays_no_match:
  assumes "\<forall>i < length ds. display_idx sel \<noteq> int (j + i)"
  shows "walk_displays dev (Some sel) j ds out = Inr (True, out)"
  using assms
proof (induction ds arbitrary: j)
  case Nil
  then show ?case by simp
next
  case (Cons d ds)
  from Cons.prems have h: "display_idx sel \<noteq> int j" by (auto dest: spec[where x = 0])
  from Cons.prems have "\<forall>i < length ds. display_idx sel \<noteq> int (Suc j + i)"
    by (auto dest: spec[where x = "Suc i" for i])
  from Cons.IH[OF this] h show ?case by simp
qed

lemma walk_displays_match:
  assumes nn: "0 \<le> mode_idx sel" "0 \<le> plane_idx sel" "mode_idx sel < INT_MAX"
    and pl: "\<forall>p \<in> set (planes dev). supported_displays p \<noteq> [] \<and> supported_res_ok p \<and>
               0 \<notin> set (supported_displays p)"
    and md: "\<forall>d \<in> set ds. modes d \<noteq> [] \<and> modes_res_ok d"
    and i: "i < length ds" "display_idx sel = int (j + i)"
  shows "walk_displays dev (Some sel) j ds None = Inr (selected_display_result dev sel (ds ! i))"
  using md i
proof (induction ds arbitrary: j i)
  case Nil
  then show ?case by simp
next
  case (Cons d ds)
  show ?case
  proof (cases i)
    case (Suc i')
    with Cons.prems have "display_idx sel \<noteq> int j" "i' < length ds" "display_idx sel = int (Suc j + i')"
      "\<forall>d \<in> set ds. modes d \<noteq> [] \<and> modes_res_ok d"
      by auto
    with Cons.IH[of i' "Suc j"] Suc show ?thesis by simp
  next
    case 0
    with Cons.prems have dj: "display_idx sel = int j" and m: "modes d \<noteq> []" "modes_res_ok d" by auto
    have rest: "walk_displays dev (Some sel) (Suc j) ds out = Inr (True, out)" for out
      by (rule walk_displays_no_match) (simp add: dj)
    have sp: "scan_planes (Some sel) (display d) 0 (planes_to_displays dev) (- 1) =
          Inr (if nat (plane_idx sel) < length (planes dev) \<and>
                  display d \<in> set (supported_displays (planes dev ! nat (plane_idx sel)))
               then plane_idx sel else - 1)"
    proof -
      have "(\<exists>j < length (planes dev). plane_idx sel = int (0 + j) \<and>
               display d \<in> set (supported_displays (planes dev ! j))) \<longleftrightarrow>
            (nat (plane_idx sel) < length (planes dev) \<and>
               display d \<in> set (supported_displays (planes dev ! nat (plane_idx sel))))"
        using nn(2) by (auto intro: exI[where x = "nat (plane_idx sel)"])
      with scan_planes_result[OF pl, of sel "display d" 0 "- 1"] show ?thesis
        by (simp add: planes_to_displays_def)
    qed
    show ?thesis
      using 0 dj m nn rest sp
      by (auto simp: selected_display_result_def idx_plus1_gt_def scan_modes_result Let_def)
  qed
qed


text \<open>
  For indices that are not negative, on a device whose queries all succeed, whose
  planes each list at least one display and whose displays each have at least one
  mode, the function returns true exactly for a valid selection and then stores
  the selected mode.
\<close>

lemma walk_display_properties_valid_selection:
  assumes nn: "0 \<le> display_idx sel" "0 \<le> mode_idx sel" "0 \<le> plane_idx sel"
    and mx: "display_idx sel < INT_MAX" "mode_idx sel < INT_MAX" "plane_idx sel < INT_MAX"
    and ok: "displays_res_ok dev" "planes_res_ok dev"
    and pl: "\<forall>p \<in> set (planes dev). supported_displays p \<noteq> [] \<and> supported_res_ok p \<and>
               0 \<notin> set (supported_displays p)"
    and md: "\<forall>d \<in> set (displays dev). modes d \<noteq> [] \<and> modes_res_ok d"
  shows "\<exists>out. walk_display_properties dev (Some sel) = Inr (valid_selection dev sel, out) \<and>
           (valid_selection dev sel \<longrightarrow>
              out = Some (modes (displays dev ! nat (display_idx sel)) ! nat (mode_idx sel)))"
proof (cases "display_idx sel < int (length (displays dev)) \<and> plane_idx sel < int (length (planes dev))")
  case False
  then have "\<not> valid_selection dev sel" by (auto simp: valid_selection_def)
  with False mx show ?thesis
    by (auto simp: walk_display_properties_def idx_plus1_gt_def Let_def split: bool.splits)
next
  case True
  let ?i = "nat (display_idx sel)"
  from True nn have i: "?i < length (displays dev)" "display_idx sel = int (0 + ?i)" by auto
  from True nn have w: "walk_display_properties dev (Some sel) =
      walk_displays dev (Some sel) 0 (displays dev) None"
    using mx ok by (auto simp: walk_display_properties_def idx_plus1_gt_def Let_def split: bool.splits)
  from walk_displays_match[OF nn(2,3) mx(2) pl md i]
  have r: "walk_displays dev (Some sel) 0 (displays dev) None =
             Inr (selected_display_result dev sel (displays dev ! ?i))" .
  have v: "valid_selection dev sel \<longleftrightarrow> fst (selected_display_result dev sel (displays dev ! ?i))"
    using True nn by (auto simp: valid_selection_def selected_display_result_def)
  have o: "valid_selection dev sel \<Longrightarrow>
           snd (selected_display_result dev sel (displays dev ! ?i)) =
             Some (modes (displays dev ! ?i) ! nat (mode_idx sel))"
    by (auto simp: valid_selection_def selected_display_result_def)
  show ?thesis
    unfolding w r using v o
    by (cases "selected_display_result dev sel (displays dev ! ?i)") auto
qed

text \<open>
  C1: the claim asks that a true result mean a valid selection whose mode
  properties have been stored, as the comment above the function says (``verify
  that it is valid and return the matching mode properties''). The code compares
  \<open>idx + 1 > num\<close> and then looks for the index among \<open>0 .. num - 1\<close>, so a
  negative index passes the comparison and matches nothing; and for a display
  without modes it goes on to the next display. In each case the result is true
  and \<open>out_mode_props\<close> is still null, which \<open>display_init\<close> then reads through.
  (Lemma \<open>walk_display_properties_valid_selection\<close> above shows that these are
  the cases that escape: without them the result is as the claim says.)
  The device below has one display with one mode and one plane that supports it;
  the second device is the same with no mode.
\<close>

theorem walk_display_properties_true_without_mode:
  "walk_display_properties
     \<lparr>displays = [\<lparr>display = 1,
                   modes = [\<lparr>displayMode = 7, region_width = 1920, region_height = 1080,
                             refreshRate = 60000\<rparr>],
                   modes_res_ok = True\<rparr>],
      displays_res_ok = True,
      planes = [\<lparr>supported_displays = [1], supported_res_ok = True\<rparr>],
      planes_res_ok = True\<rparr>
     (Some \<lparr>display_idx = 0, mode_idx = - 1, plane_idx = 0\<rparr>) = Inr (True, None) \<and>
   walk_display_properties
     \<lparr>displays = [\<lparr>display = 1,
                   modes = [\<lparr>displayMode = 7, region_width = 1920, region_height = 1080,
                             refreshRate = 60000\<rparr>],
                   modes_res_ok = True\<rparr>],
      displays_res_ok = True,
      planes = [\<lparr>supported_displays = [1], supported_res_ok = True\<rparr>],
      planes_res_ok = True\<rparr>
     (Some \<lparr>display_idx = - 1, mode_idx = 0, plane_idx = 0\<rparr>) = Inr (True, None) \<and>
   walk_display_properties
     \<lparr>displays = [\<lparr>display = 1, modes = [], modes_res_ok = True\<rparr>],
      displays_res_ok = True,
      planes = [\<lparr>supported_displays = [1], supported_res_ok = True\<rparr>],
      planes_res_ok = True\<rparr>
     (Some \<lparr>display_idx = 0, mode_idx = 0, plane_idx = 0\<rparr>) = Inr (True, None) \<and>
   display_init
     \<lparr>mpvk_init_ok = True,
      chosen_device = Some
        \<lparr>displays = [\<lparr>display = 1,
                      modes = [\<lparr>displayMode = 7, region_width = 1920, region_height = 1080,
                                refreshRate = 60000\<rparr>],
                      modes_res_ok = True\<rparr>],
         displays_res_ok = True,
         planes = [\<lparr>supported_displays = [1], supported_res_ok = True\<rparr>],
         planes_res_ok = True\<rparr>,
      create_surface_ok = True, ra_vk_ctx_init_ok = True\<rparr>
     \<lparr>display_idx = 0, mode_idx = - 1, plane_idx = 0\<rparr> = Inl NullModeDeref"
  by (simp add: display_init_def walk_display_properties_def idx_plus1_gt_def INT_MAX_def
      planes_to_displays_def plane_displays_entry_def)

section \<open>The VA-API driver\<close>

lemma live_mems_snoc: "live_mems (cs @ ds) = fold live_mem_step ds (live_mems cs)"
  by (simp add: live_mems_def)

lemma live_texs_snoc: "live_texs (cs @ ds) = fold live_tex_step ds (live_texs cs)"
  by (simp add: live_texs_def)

lemma somes_update_Some:
  "i < length xs \<Longrightarrow> xs ! i = None \<Longrightarrow> somes (xs[i := Some x]) = add_mset x (somes xs)"
proof (induction xs arbitrary: i)
  case Nil then show ?case by simp
next
  case (Cons a xs)
  then show ?case by (cases i; cases a) auto
qed

lemma nth_Some_in_somes: "i < length xs \<Longrightarrow> xs ! i = Some x \<Longrightarrow> x \<in># somes xs"
proof (induction xs arbitrary: i)
  case Nil then show ?case by simp
next
  case (Cons a xs)
  then show ?case by (cases i; cases a) auto
qed

lemma somes_update_None:
  "i < length xs \<Longrightarrow> somes (xs[i := None]) = somes xs - (case xs ! i of None \<Rightarrow> {#} | Some x \<Rightarrow> {#x#})"
proof (induction xs arbitrary: i)
  case Nil then show ?case by simp
next
  case (Cons a xs)
  show ?case
  proof (cases i)
    case 0 then show ?thesis by (cases a) auto
  next
    case (Suc j)
    with Cons.prems have j: "j < length xs" by simp
    show ?thesis using Suc Cons.IH[OF j] nth_Some_in_somes[OF j]
      by (cases a) (auto split: option.splits)
  qed
qed


lemma somes_all_None: "somes [None, None, None, None] = {#}"
  by simp

lemma unmapped_accounted: "unmapped m \<Longrightarrow> accounted m m"
  by (simp add: unmapped_def accounted_def)

lemma mapper_unmap_slot_accounted:
  assumes a: "accounted m0 m" and n: "n < 4"
  shows "accounted m0 (mapper_unmap_slot n m) \<and>
         va_tex (mapper_unmap_slot n m) = (va_tex m)[n := None] \<and>
         va_mem (mapper_unmap_slot n m) = (va_mem m)[n := None]"
proof -
  from a n have lt: "n < length (va_tex m)" and lm: "n < length (va_mem m)"
    by (simp_all add: accounted_def)
  have t: "t \<in># somes (va_tex m)" if "va_tex m ! n = Some t" for t
    using nth_Some_in_somes[OF lt that] .
  have x: "x \<in># somes (va_mem m)" if "va_mem m ! n = Some x" for x
    using nth_Some_in_somes[OF lm that] .
  have idt: "(va_tex m)[n := None] = va_tex m" if "va_tex m ! n = None"
    using that list_update_same_conv[OF lt, of None] by simp
  have idm: "(va_mem m)[n := None] = va_mem m" if "va_mem m ! n = None"
    using that list_update_same_conv[OF lm, of None] by simp
  show ?thesis
  proof (cases "va_tex m ! n")
    case tn: None
    show ?thesis
    proof (cases "va_mem m ! n")
      case None
      with tn a idt idm show ?thesis
        by (simp add: mapper_unmap_slot_def)
    next
      case (Some y)
      with tn a idt x[OF Some] somes_update_None[OF lm] show ?thesis
        by (simp add: mapper_unmap_slot_def accounted_def va_call_def live_mems_snoc live_texs_snoc)
    qed
  next
    case ts: (Some u)
    show ?thesis
    proof (cases "va_mem m ! n")
      case None
      with ts a idm t[OF ts] somes_update_None[OF lt] show ?thesis
        by (simp add: mapper_unmap_slot_def accounted_def va_call_def live_mems_snoc live_texs_snoc)
    next
      case (Some y)
      with ts a t[OF ts] x[OF Some] somes_update_None[OF lt] somes_update_None[OF lm] show ?thesis
        by (simp add: mapper_unmap_slot_def accounted_def va_call_def live_mems_snoc live_texs_snoc)
    qed
  qed
qed

lemma all_None4:
  "length xs = 4 \<Longrightarrow> xs[0 := None, 1 := None, 2 := None, 3 := None] = [None, None, None, None]"
  by (auto simp: length_Suc_conv numeral_eq_Suc)

lemma vaapi_mapper_unmap_accounted:
  assumes a: "accounted m0 m"
  shows "accounted m0 (vaapi_mapper_unmap m) \<and> unmapped (vaapi_mapper_unmap m)"
proof -
  define m1 where "m1 = mapper_unmap_slot 0 m"
  define m2 where "m2 = mapper_unmap_slot 1 m1"
  define m3 where "m3 = mapper_unmap_slot 2 m2"
  define m4 where "m4 = mapper_unmap_slot 3 m3"
  have u: "vaapi_mapper_unmap m = m4"
    by (simp add: vaapi_mapper_unmap_def m1_def m2_def m3_def m4_def)
  have 1: "accounted m0 m1" "va_tex m1 = (va_tex m)[0 := None]" "va_mem m1 = (va_mem m)[0 := None]"
    using mapper_unmap_slot_accounted[OF a, of 0] by (simp_all add: m1_def)
  have 2: "accounted m0 m2" "va_tex m2 = (va_tex m1)[1 := None]" "va_mem m2 = (va_mem m1)[1 := None]"
    using mapper_unmap_slot_accounted[OF 1(1), of 1] by (simp_all add: m2_def)
  have 3: "accounted m0 m3" "va_tex m3 = (va_tex m2)[2 := None]" "va_mem m3 = (va_mem m2)[2 := None]"
    using mapper_unmap_slot_accounted[OF 2(1), of 2] by (simp_all add: m3_def)
  have 4: "accounted m0 m4" "va_tex m4 = (va_tex m3)[3 := None]" "va_mem m4 = (va_mem m3)[3 := None]"
    using mapper_unmap_slot_accounted[OF 3(1), of 3] by (simp_all add: m4_def)
  from a have l: "length (va_tex m) = 4" "length (va_mem m) = 4"
    by (simp_all add: accounted_def)
  have "va_tex m4 = [None, None, None, None]" "va_mem m4 = [None, None, None, None]"
    using all_None4[OF l(1)] all_None4[OF l(2)] by (simp_all add: 1 2 3 4)
  with 4(1) u show ?thesis by (simp add: unmapped_def)
qed

lemma import_objects_accounted:
  assumes "accounted m0 m" "\<forall>j. i \<le> j \<and> j < 4 \<longrightarrow> va_mem m ! j = None"
    and "import_objects env i objs m = Inr (ok, m1)"
  shows "accounted m0 m1 \<and> va_tex m1 = va_tex m"
  using assms
proof (induction objs arbitrary: i m)
  case Nil
  then show ?case by simp
next
  case (Cons obj objs)
  from Cons.prems(3) have i4: "i < 4" by (auto split: if_splits)
  with Cons.prems(1) have li: "i < length (va_mem m)" by (simp add: accounted_def)
  from Cons.prems(2) i4 have ni: "va_mem m ! i = None" by simp
  show ?case
  proof (cases "pl_vulkan_mem_import_ok env i")
    case False
    have "(va_mem m)[i := None] = va_mem m"
      using ni list_update_same_conv[OF li, of None] by simp
    with False Cons.prems i4 show ?thesis
      by (auto simp: accounted_def va_call_def live_mems_snoc live_texs_snoc)
  next
    case True
    let ?x = "Pl_vulkan_mem (obj_fd obj) (obj_size obj)"
    let ?m' = "va_call (Pl_vulkan_mem_import ?x) (m\<lparr>va_mem := (va_mem m)[i := Some ?x]\<rparr>)"
    have a': "accounted m0 ?m'"
      using Cons.prems(1) somes_update_Some[OF li ni, of ?x]
      by (simp add: accounted_def va_call_def live_mems_snoc live_texs_snoc)
    have n': "\<forall>j. Suc i \<le> j \<and> j < 4 \<longrightarrow> va_mem ?m' ! j = None"
      using Cons.prems(2) by (simp add: va_call_def)
    from Cons.prems(3) True i4 have r: "import_objects env (Suc i) objs ?m' = Inr (ok, m1)"
      by (simp add: Let_def)
    from Cons.IH[OF a' n' r] show ?thesis by (simp add: va_call_def)
  qed
qed

lemma map_layers_accounted:
  assumes "accounted m0 m" "\<forall>j. n \<le> j \<and> j < 4 \<longrightarrow> va_tex m ! j = None"
    and "map_layers env fmts n ls m = Inr (ok, m2)"
  shows "accounted m0 m2 \<and> va_mem m2 = va_mem m"
  using assms
proof (induction ls arbitrary: n m)
  case Nil
  then show ?case by simp
next
  case (Cons layer ls)
  from Cons.prems(3) have n4: "n < 4" by (auto split: if_splits)
  with Cons.prems(1) have ln: "n < length (va_tex m)" by (simp add: accounted_def)
  from Cons.prems(2) n4 have nn: "va_tex m ! n = None" by simp
  let ?t = "Ra_tex n (fmts ! n) (va_mem m ! object_index0 layer) (offset0 layer)"
  let ?m1 = "va_call (Pl_vulkan_tex_import ?t) m"
  let ?m' = "va_call (Pl_vulkan_release ?t) (?m1\<lparr>va_tex := (va_tex ?m1)[n := Some ?t]\<rparr>)"
  show ?case
  proof (cases "num_planes layer \<le> 1 \<and> pl_vulkan_tex_import_ok env n \<and> mppl_wrap_tex_ok env n")
    case False
    with Cons.prems n4 show ?thesis
      by (auto simp: accounted_def va_call_def live_mems_snoc live_texs_snoc Let_def split: if_splits)
  next
    case True
    have a': "accounted m0 ?m'"
      using Cons.prems(1) somes_update_Some[OF ln nn, of ?t]
      by (simp add: accounted_def va_call_def live_mems_snoc live_texs_snoc)
    have n': "\<forall>j. Suc n \<le> j \<and> j < 4 \<longrightarrow> va_tex ?m' ! j = None"
      using Cons.prems(2) by (simp add: va_call_def)
    from Cons.prems(3) True n4 have r: "map_layers env fmts (Suc n) ls ?m' = Inr (ok, m2)"
      by (simp add: Let_def split: if_splits)
    from Cons.IH[OF a' n' r] show ?thesis by (simp add: va_call_def)
  qed
qed

lemma import_objects_slots:
  assumes "length (va_mem m) = 4" "import_objects env i objs m = Inr (True, m1)"
  shows "(\<forall>k < length objs. va_mem m1 ! (i + k) =
            Some (Pl_vulkan_mem (obj_fd (objs ! k)) (obj_size (objs ! k)))) \<and>
         (\<forall>j < i. va_mem m1 ! j = va_mem m ! j) \<and> length (va_mem m1) = 4 \<and>
         va_tex m1 = va_tex m"
  using assms
proof (induction objs arbitrary: i m)
  case Nil
  then show ?case by simp
next
  case (Cons obj objs)
  from Cons.prems(2) have i4: "i < 4" and ok: "pl_vulkan_mem_import_ok env i"
    by (auto split: if_splits)
  let ?x = "Pl_vulkan_mem (obj_fd obj) (obj_size obj)"
  let ?m' = "va_call (Pl_vulkan_mem_import ?x) (m\<lparr>va_mem := (va_mem m)[i := Some ?x]\<rparr>)"
  from Cons.prems(2) i4 ok have r: "import_objects env (Suc i) objs ?m' = Inr (True, m1)"
    by (simp add: Let_def)
  have l: "length (va_mem ?m') = 4"
    using Cons.prems(1) by (simp add: va_call_def)
  note ih = Cons.IH[OF l r]
  have a: "va_mem m1 ! (i + k) = Some (Pl_vulkan_mem (obj_fd ((obj # objs) ! k)) (obj_size ((obj # objs) ! k)))"
    if "k < length (obj # objs)" for k
  proof (cases k)
    case 0
    with ih i4 Cons.prems(1) show ?thesis by (simp add: va_call_def)
  next
    case (Suc k')
    with that ih show ?thesis by simp
  qed
  have b: "va_mem m1 ! j = va_mem m ! j" if "j < i" for j
    using ih that by (simp add: va_call_def)
  from a b ih show ?case by (simp add: va_call_def)
qed

lemma map_layers_slots:
  assumes "length (va_tex m) = 4" "map_layers env fmts n ls m = Inr (True, m2)" "n \<le> 4"
  shows "(\<forall>k < length ls.
            va_tex m2 ! (n + k) =
              Some (Ra_tex (n + k) (fmts ! (n + k)) (va_mem m ! object_index0 (ls ! k))
                      (offset0 (ls ! k)))) \<and>
         (\<forall>j < n. va_tex m2 ! j = va_tex m ! j) \<and> length (va_tex m2) = 4 \<and>
         va_mem m2 = va_mem m \<and> n + length ls \<le> 4"
  using assms
proof (induction ls arbitrary: n m)
  case Nil
  then show ?case by simp
next
  case (Cons layer ls)
  from Cons.prems(2) have n4: "n < 4" and ok: "\<not> 1 < num_planes layer"
    "pl_vulkan_tex_import_ok env n" "mppl_wrap_tex_ok env n"
    by (auto simp: Let_def split: if_splits)
  let ?t = "Ra_tex n (fmts ! n) (va_mem m ! object_index0 layer) (offset0 layer)"
  let ?m1 = "va_call (Pl_vulkan_tex_import ?t) m"
  let ?m' = "va_call (Pl_vulkan_release ?t) (?m1\<lparr>va_tex := (va_tex ?m1)[n := Some ?t]\<rparr>)"
  from Cons.prems(2) n4 ok have r: "map_layers env fmts (Suc n) ls ?m' = Inr (True, m2)"
    by (simp add: Let_def split: if_splits)
  have l: "length (va_tex ?m') = 4"
    using Cons.prems(1) by (simp add: va_call_def)
  from n4 have sn: "Suc n \<le> 4" by simp
  note ih = Cons.IH[OF l r sn]
  have a: "va_tex m2 ! (n + k) =
             Some (Ra_tex (n + k) (fmts ! (n + k)) (va_mem m ! object_index0 ((layer # ls) ! k))
                     (offset0 ((layer # ls) ! k)))"
    if "k < length (layer # ls)" for k
  proof (cases k)
    case 0
    with ih n4 Cons.prems(1) show ?thesis by (simp add: va_call_def)
  next
    case (Suc k')
    with that ih show ?thesis by (simp add: va_call_def)
  qed
  have b: "va_tex m2 ! j = va_tex m ! j" if "j < n" for j
    using ih that by (simp add: va_call_def)
  from a b ih show ?case by (simp add: va_call_def)
qed

lemma map_layers_multi_plane:
  "map_layers env fmts n ls m = Inr (ok, m2) \<Longrightarrow> \<exists>l \<in> set ls. 1 < num_planes l \<Longrightarrow> \<not> ok"
proof (induction ls arbitrary: n m)
  case Nil
  then show ?case by simp
next
  case (Cons layer ls)
  show ?case
  proof
    assume ok
    with Cons.prems(1) have one: "\<not> 1 < num_planes layer"
      by (auto simp: Let_def split: if_splits)
    with Cons.prems(2) have more: "\<exists>l \<in> set ls. 1 < num_planes l" by auto
    from Cons.prems(1) \<open>ok\<close> obtain mx where "map_layers env fmts (Suc n) ls mx = Inr (ok, m2)"
      by (auto simp: Let_def split: if_splits)
    from Cons.IH[OF this more] \<open>ok\<close> show False by simp
  qed
qed

lemma swap_nth:
  assumes "length xs = 4" "n < 4"
  shows "xs[1 := xs ! 2, 2 := xs ! 1] ! (if n = 1 then 2 else if n = 2 then 1 else n) = xs ! n"
  using assms by auto

lemma import_objects_ok_iff:
  "import_objects env i objs m = Inr (ok, m1) \<Longrightarrow>
   ok \<longleftrightarrow> (\<forall>k < length objs. pl_vulkan_mem_import_ok env (i + k))"
proof (induction objs arbitrary: i m)
  case Nil
  then show ?case by auto
next
  case (Cons obj objs)
  have ex: "(\<forall>k < length (obj # objs). pl_vulkan_mem_import_ok env (i + k)) \<longleftrightarrow>
        pl_vulkan_mem_import_ok env i \<and> (\<forall>k < length objs. pl_vulkan_mem_import_ok env (Suc i + k))"
    by (auto simp: less_Suc_eq_0_disj)
  show ?case
  proof (cases "pl_vulkan_mem_import_ok env i")
    case False
    with Cons.prems show ?thesis unfolding ex by (auto split: if_splits)
  next
    case True
    with Cons.prems obtain mx where "import_objects env (Suc i) objs mx = Inr (ok, m1)"
      by (auto simp: Let_def split: if_splits)
    from Cons.IH[OF this] True show ?thesis unfolding ex by simp
  qed
qed

lemma map_layers_ok_iff:
  "map_layers env fmts n ls m = Inr (ok, m2) \<Longrightarrow>
   ok \<longleftrightarrow> (\<forall>k < length ls. num_planes (ls ! k) \<le> 1 \<and> pl_vulkan_tex_import_ok env (n + k) \<and>
                 mppl_wrap_tex_ok env (n + k))"
proof (induction ls arbitrary: n m)
  case Nil
  then show ?case by auto
next
  case (Cons layer ls)
  have ex: "(\<forall>k < length (layer # ls). num_planes ((layer # ls) ! k) \<le> 1 \<and>
               pl_vulkan_tex_import_ok env (n + k) \<and> mppl_wrap_tex_ok env (n + k)) \<longleftrightarrow>
        (num_planes layer \<le> 1 \<and> pl_vulkan_tex_import_ok env n \<and> mppl_wrap_tex_ok env n) \<and>
        (\<forall>k < length ls. num_planes (ls ! k) \<le> 1 \<and> pl_vulkan_tex_import_ok env (Suc n + k) \<and>
               mppl_wrap_tex_ok env (Suc n + k))"
    by (auto simp: less_Suc_eq_0_disj)
  show ?case
  proof (cases "num_planes layer \<le> 1 \<and> pl_vulkan_tex_import_ok env n \<and> mppl_wrap_tex_ok env n")
    case False
    with Cons.prems show ?thesis unfolding ex by (auto simp: Let_def split: if_splits)
  next
    case True
    with Cons.prems obtain mx where "map_layers env fmts (Suc n) ls mx = Inr (ok, m2)"
      by (auto simp: Let_def split: if_splits)
    from Cons.IH[OF this] True show ?thesis unfolding ex by simp
  qed
qed

lemma vaapi_mapper_map_ret:
  assumes r: "vaapi_mapper_map env m = Inr (ret, m')"
  shows "(ret = 0 \<or> ret = - 1) \<and> (ret = 0 \<longleftrightarrow> map_steps_ok env)"
proof (cases "vaExportSurfaceHandle_res env")
  case None
  with r show ?thesis by (auto simp: vaapi_mapper_map_def map_steps_ok_def)
next
  case (Some desc)
  show ?thesis
  proof (cases "va_get_imgfmt_desc env")
    case None
    with r Some show ?thesis by (auto simp: vaapi_mapper_map_def map_steps_ok_def)
  next
    case f: (Some fmts)
    from r Some f obtain ok1 m1 where i: "import_objects env 0 (objects desc) m = Inr (ok1, m1)"
      by (auto simp: vaapi_mapper_map_def split: sum.splits)
    have i1: "ok1 \<longleftrightarrow> (\<forall>k < length (objects desc). pl_vulkan_mem_import_ok env k)"
      using import_objects_ok_iff[OF i] by simp
    show ?thesis
    proof (cases ok1)
      case False
      with r Some f i have "ret = - 1"
        by (auto simp: vaapi_mapper_map_def)
      moreover from False i1 Some have "\<not> map_steps_ok env"
        by (auto simp: map_steps_ok_def)
      ultimately show ?thesis by simp
    next
      case True
      from r Some f i True obtain ok2 m2 where l: "map_layers env fmts 0 (layers desc) m1 = Inr (ok2, m2)"
        by (auto simp: vaapi_mapper_map_def split: sum.splits)
      have l1: "ok2 \<longleftrightarrow> (\<forall>k < length (layers desc). num_planes (layers desc ! k) \<le> 1 \<and>
                  pl_vulkan_tex_import_ok env k \<and> mppl_wrap_tex_ok env k)"
        using map_layers_ok_iff[OF l] by simp
      from r Some f i True l have "ret = (if ok2 then 0 else - 1)"
        by (cases ok2) (auto simp: vaapi_mapper_map_def)
      moreover from True i1 l1 Some f have "map_steps_ok env \<longleftrightarrow> ok2"
        by (auto simp: map_steps_ok_def)
      ultimately show ?thesis by simp
    qed
  qed
qed


lemma import_objects_no_fault:
  "i + length objs \<le> 4 \<Longrightarrow> \<exists>ok m1. import_objects env i objs m = Inr (ok, m1)"
proof (induction objs arbitrary: i m)
  case Nil
  then show ?case by auto
next
  case (Cons obj objs)
  from Cons.prems have "Suc i + length objs \<le> 4" "\<not> 4 \<le> i" by simp_all
  with Cons.IH[of "Suc i"] show ?case by (auto simp: Let_def)
qed

lemma map_layers_no_fault:
  assumes "n + length ls \<le> 4" "n + length ls \<le> length fmts" "\<forall>l \<in> set ls. object_index0 l < 4"
  shows "\<exists>ok m2. map_layers env fmts n ls m = Inr (ok, m2)"
  using assms
proof (induction ls arbitrary: n m)
  case Nil
  then show ?case by auto
next
  case (Cons layer ls)
  from Cons.prems have "Suc n + length ls \<le> 4" "Suc n + length ls \<le> length fmts"
    "\<forall>l \<in> set ls. object_index0 l < 4" "\<not> 4 \<le> n" "\<not> length fmts \<le> n" "\<not> 4 \<le> object_index0 layer"
    by simp_all
  with Cons.IH[of "Suc n"] show ?case by (auto simp: Let_def)
qed

lemma vaapi_mapper_map_no_fault:
  assumes b: "in_bounds env"
  shows "\<exists>ret m'. vaapi_mapper_map env m = Inr (ret, m')"
proof (cases "vaExportSurfaceHandle_res env")
  case None
  then show ?thesis by (simp add: vaapi_mapper_map_def)
next
  case (Some desc)
  show ?thesis
  proof (cases "va_get_imgfmt_desc env")
    case None
    with Some show ?thesis by (simp add: vaapi_mapper_map_def)
  next
    case f: (Some fmts)
    from b Some f have d: "desc_in_bounds desc fmts" by (simp add: in_bounds_def)
    from d obtain ok1 m1 where i: "import_objects env 0 (objects desc) m = Inr (ok1, m1)"
      using import_objects_no_fault[of 0 "objects desc" env m] by (auto simp: desc_in_bounds_def)
    from d obtain ok2 m2 where l: "map_layers env fmts 0 (layers desc) m1 = Inr (ok2, m2)"
      using map_layers_no_fault[of 0 "layers desc" fmts env m1] by (auto simp: desc_in_bounds_def)
    from Some f i l show ?thesis
      by (cases ok1; cases ok2) (simp_all add: vaapi_mapper_map_def)
  qed
qed

text \<open>
  C5, as the claim states it, fails: \<open>init\<close> starts with
  \<open>if (ra_is_gl(hw->ra)) return -1\<close>. In an environment where every later step
  works, it returns \<open>-1\<close> under OpenGL and 0 once the renderer is not OpenGL.
\<close>

theorem vaapi_init_fails_under_gl:
  "vaapi_init (sample_vaapi_env\<lparr>va_ra_is_gl := True\<rparr>) = (- 1, []) \<and>
   fst (vaapi_init sample_vaapi_env) = 0"
  by (simp add: vaapi_init_def sample_vaapi_env_def determine_working_formats_def try_format_def)

text \<open>
  C5, amended: \<open>init\<close> returns \<open>-1\<close> whenever the renderer is OpenGL, before
  any other call. With any other renderer (Vulkan in particular) it returns 0
  exactly when a native VA display is found, VA-API initialises with a libavutil
  device, the driver is not an emulated one during probing, and at least one
  format could be mapped.
\<close>

theorem vaapi_init_backends:
  "(va_ra_is_gl env \<longrightarrow> vaapi_init env = (- 1, [])) \<and>
   (\<not> va_ra_is_gl env \<longrightarrow>
      (fst (vaapi_init env) = 0 \<longleftrightarrow>
         create_native_va_display (create_native_cbs env) \<noteq> 0 \<and>
         va_initialize_res env = Some True \<and>
         \<not> (probing env \<and> va_guess_if_emulated env) \<and>
         hd (determine_working_formats env) \<noteq> 0))"
  by (auto simp: vaapi_init_def Let_def determine_working_formats_def split: option.splits)

theorem vaapi_init_backends_witness:
  "vaapi_init (sample_vaapi_env\<lparr>va_ra_is_gl := True\<rparr>) = (- 1, []) \<and>
   fst (vaapi_init sample_vaapi_env) = 0"
proof -
  have g: "va_ra_is_gl (sample_vaapi_env\<lparr>va_ra_is_gl := True\<rparr>)"
    by simp
  have v: "\<not> va_ra_is_gl sample_vaapi_env"
    "create_native_va_display (create_native_cbs sample_vaapi_env) \<noteq> 0"
    "va_initialize_res sample_vaapi_env = Some True"
    "\<not> (probing sample_vaapi_env \<and> va_guess_if_emulated sample_vaapi_env)"
    "hd (determine_working_formats sample_vaapi_env) \<noteq> 0"
    by (simp_all add: sample_vaapi_env_def determine_working_formats_def try_format_def)
  show ?thesis
    using g v vaapi_init_backends[of "sample_vaapi_env\<lparr>va_ra_is_gl := True\<rparr>"]
      vaapi_init_backends[of sample_vaapi_env]
    by blast
qed

lemma vaapi_mapper_map_nonzero_unmaps:
  assumes u: "unmapped m" and r: "vaapi_mapper_map env m = Inr (ret, m')" and nz: "ret \<noteq> 0"
  shows "ret = - 1 \<and> unmapped m' \<and>
         live_mems (va_calls m') = live_mems (va_calls m) \<and>
         live_texs (va_calls m') = live_texs (va_calls m)"
proof -
  have a0: "accounted m m"
    by (rule unmapped_accounted[OF u])
  have z: "\<forall>j. 0 \<le> j \<and> j < 4 \<longrightarrow> va_mem m ! j = None"
    "\<forall>j. 0 \<le> j \<and> j < 4 \<longrightarrow> va_tex m ! j = None"
    using u by (auto simp: unmapped_def nth_Cons split: nat.splits)
  have fin: "unmapped (vaapi_mapper_unmap mx) \<and>
             live_mems (va_calls (vaapi_mapper_unmap mx)) = live_mems (va_calls m) \<and>
             live_texs (va_calls (vaapi_mapper_unmap mx)) = live_texs (va_calls m)"
    if "accounted m mx" for mx
    using vaapi_mapper_unmap_accounted[OF that]
    by (auto simp: accounted_def unmapped_def)
  from r nz obtain mx where e: "ret = - 1" "m' = vaapi_mapper_unmap mx" and ax: "accounted m mx"
  proof (cases "vaExportSurfaceHandle_res env")
    case None
    with r a0 that show ?thesis
      by (auto simp: vaapi_mapper_map_def)
  next
    case (Some desc)
    show ?thesis
    proof (cases "va_get_imgfmt_desc env")
      case None
      with r a0 Some that show ?thesis
        by (auto simp: vaapi_mapper_map_def)
    next
      case p: (Some fmts)
      from r Some p obtain ok1 m1 where i: "import_objects env 0 (objects desc) m = Inr (ok1, m1)"
        by (auto simp: vaapi_mapper_map_def split: sum.splits)
      from import_objects_accounted[OF a0 z(1) i]
      have a1: "accounted m m1" "va_tex m1 = va_tex m"
        by simp_all
      show ?thesis
      proof (cases ok1)
        case False
        with r Some p i a1 that show ?thesis
          by (auto simp: vaapi_mapper_map_def)
      next
        case True
        from r Some p i True obtain ok2 m2
          where l: "map_layers env fmts 0 (layers desc) m1 = Inr (ok2, m2)"
          by (auto simp: vaapi_mapper_map_def split: sum.splits)
        from z(2) a1(2) have z1: "\<forall>j. 0 \<le> j \<and> j < 4 \<longrightarrow> va_tex m1 ! j = None"
          by simp
        from map_layers_accounted[OF a1(1) z1 l] have a2: "accounted m m2"
          by simp
        from r Some p i True l nz a2 that show ?thesis
          by (cases ok2) (auto simp: vaapi_mapper_map_def)
      qed
    qed
  qed
  with fin[OF ax] show ?thesis
    by simp
qed

lemmas vaapi_eval =
  vaapi_mapper_map_def sample_vaapi_env_def sample_desc_def empty_mapper_def va_call_def
  MPSWAP_tex_def Let_def

text \<open>
  C6: when some step of \<open>mapper_map\<close> fails (the surface export, the format
  lookup, a memory import, a texture import, the wrapping, or a layer with several
  planes), the function, called on a mapper whose slots are empty, returns \<open>-1\<close>;
  all four texture slots and all four memory slots are null again, and every
  memory object and every texture created during the call has been released
  (what is live after the call is what was live before): each failure goes to
  the label \<open>error\<close>, which calls \<open>mapper_unmap\<close>.
\<close>

theorem vaapi_mapper_map_failure_unmaps:
  assumes u: "unmapped m" and b: "in_bounds env" and fail: "\<not> map_steps_ok env"
  shows "\<exists>m'. vaapi_mapper_map env m = Inr (- 1, m') \<and> unmapped m' \<and>
           live_mems (va_calls m') = live_mems (va_calls m) \<and>
           live_texs (va_calls m') = live_texs (va_calls m)"
proof -
  from vaapi_mapper_map_no_fault[OF b] obtain ret m'
    where r: "vaapi_mapper_map env m = Inr (ret, m')"
    by blast
  from vaapi_mapper_map_ret[OF r] fail have nz: "ret \<noteq> 0"
    by simp
  from vaapi_mapper_map_nonzero_unmaps[OF u r nz] r show ?thesis
    by simp
qed

theorem vaapi_mapper_map_failure_unmaps_witness:
  "\<exists>m'. vaapi_mapper_map (sample_vaapi_env\<lparr>mppl_wrap_tex_ok := (\<lambda>n. n \<noteq> 2)\<rparr>) empty_mapper =
          Inr (- 1, m') \<and>
        unmapped m' \<and> live_mems (va_calls m') = {#} \<and> live_texs (va_calls m') = {#}"
proof -
  let ?e = "sample_vaapi_env\<lparr>mppl_wrap_tex_ok := (\<lambda>n. n \<noteq> 2)\<rparr>"
  have u: "unmapped empty_mapper"
    by (simp add: unmapped_def empty_mapper_def)
  have b: "in_bounds ?e"
    by (simp add: in_bounds_def desc_in_bounds_def sample_vaapi_env_def sample_desc_def)
  have "\<not> mppl_wrap_tex_ok ?e 2" "2 < length (layers sample_desc)"
    "vaExportSurfaceHandle_res ?e = Some sample_desc"
    by (simp_all add: sample_vaapi_env_def sample_desc_def)
  then have f: "\<not> map_steps_ok ?e"
    by (auto simp: map_steps_ok_def)
  have c: "live_mems (va_calls empty_mapper) = {#}" "live_texs (va_calls empty_mapper) = {#}"
    by (simp_all add: empty_mapper_def live_mems_def live_texs_def)
  from vaapi_mapper_map_failure_unmaps[OF u b f] c show ?thesis
    by simp
qed

text \<open>
  C9, as the claim states it, fails for the fourcc YV12: after the loop the code
  exchanges \<open>tex[1]\<close> and \<open>tex[2]\<close>. On the three-layer surface below the map
  succeeds and \<open>tex[1]\<close> is the texture of layer 2, imported from the object with
  descriptor 12, while the object of layer 1 has descriptor 11.
\<close>

theorem vaapi_mapper_map_yv12_swaps:
  "fst (projr (vaapi_mapper_map sample_vaapi_env empty_mapper)) = 0 \<and>
   va_tex (snd (projr (vaapi_mapper_map sample_vaapi_env empty_mapper))) ! 1 =
     Some (Ra_tex 2 8 (Some (Pl_vulkan_mem 12 1024)) 0) \<and>
   objects sample_desc ! object_index0 (layers sample_desc ! 1) =
     \<lparr>obj_fd = 11, obj_size = 1024\<rparr>"
  by (simp add: vaapi_eval)

lemma vaapi_mapper_map_textures_aux:
  assumes lt: "length (va_tex m) = 4" and lm: "length (va_mem m) = 4"
    and e: "vaExportSurfaceHandle_res env = Some desc"
    and f: "va_get_imgfmt_desc env = Some fmts"
    and r: "vaapi_mapper_map env m = Inr (ret, m')"
    and wf: "\<forall>l \<in> set (layers desc). object_index0 l < length (objects desc)"
  shows "(ret = 0 \<longrightarrow>
           (\<forall>n < length (layers desc).
              va_tex m' ! tex_slot desc n =
                Some (Ra_tex n (fmts ! n)
                        (Some (Pl_vulkan_mem
                                 (obj_fd (objects desc ! object_index0 (layers desc ! n)))
                                 (obj_size (objects desc ! object_index0 (layers desc ! n)))))
                        (offset0 (layers desc ! n))))) \<and>
         ((\<exists>l \<in> set (layers desc). 1 < num_planes l) \<longrightarrow> ret = - 1)"
proof -
  from r e f obtain ok1 m1 where i: "import_objects env 0 (objects desc) m = Inr (ok1, m1)"
    by (auto simp: vaapi_mapper_map_def split: sum.splits)
  show ?thesis
  proof (cases ok1)
    case False
    with r e f i show ?thesis by (auto simp: vaapi_mapper_map_def)
  next
    case True
    from r e f i True obtain ok2 m2 where l: "map_layers env fmts 0 (layers desc) m1 = Inr (ok2, m2)"
      by (auto simp: vaapi_mapper_map_def split: sum.splits)
    have multi: "ret = - 1" if "\<exists>l \<in> set (layers desc). 1 < num_planes l"
      using map_layers_multi_plane[OF l that] r e f i True l
      by (auto simp: vaapi_mapper_map_def)
    have texs: "va_tex m' ! tex_slot desc n =
                Some (Ra_tex n (fmts ! n)
                        (Some (Pl_vulkan_mem
                                 (obj_fd (objects desc ! object_index0 (layers desc ! n)))
                                 (obj_size (objects desc ! object_index0 (layers desc ! n)))))
                        (offset0 (layers desc ! n)))"
      if z: "ret = 0" and n: "n < length (layers desc)" for n
    proof -
      from r e f i True l z have ok2 and m': "m' = (if fourcc desc = VA_FOURCC_YV12 then MPSWAP_tex 1 2 m2 else m2)"
        by (cases ok2; auto simp: vaapi_mapper_map_def)+
      from i True have i': "import_objects env 0 (objects desc) m = Inr (True, m1)" by simp
      from import_objects_slots[OF lm i']
      have mem1: "\<forall>k < length (objects desc). va_mem m1 ! k =
            Some (Pl_vulkan_mem (obj_fd (objects desc ! k)) (obj_size (objects desc ! k)))"
        and t1: "length (va_tex m1) = 4" using lt by simp_all
      from \<open>ok2\<close> l have l': "map_layers env fmts 0 (layers desc) m1 = Inr (True, m2)" by simp
      from map_layers_slots[OF t1 l']
      have tex2: "\<forall>k < length (layers desc). va_tex m2 ! k =
              Some (Ra_tex k (fmts ! k) (va_mem m1 ! object_index0 (layers desc ! k))
                      (offset0 (layers desc ! k)))"
        and t2: "length (va_tex m2) = 4" and n4: "length (layers desc) \<le> 4" by simp_all
      from wf n have oi: "object_index0 (layers desc ! n) < length (objects desc)" by simp
      from tex2 n mem1 oi have g: "va_tex m2 ! n =
              Some (Ra_tex n (fmts ! n)
                        (Some (Pl_vulkan_mem
                                 (obj_fd (objects desc ! object_index0 (layers desc ! n)))
                                 (obj_size (objects desc ! object_index0 (layers desc ! n)))))
                        (offset0 (layers desc ! n)))" by simp
      from n n4 have "n < 4" by simp
      from swap_nth[OF t2 this] g m' show ?thesis
        by (simp add: tex_slot_def MPSWAP_tex_def)
    qed
    from multi texs show ?thesis by blast
  qed
qed

text \<open>
  C9, amended: on a surface within the bounds above whose layers name objects of
  the surface, \<open>mapper_map\<close> returns, with 0 exactly when every step succeeds.
  After a successful \<open>mapper_map\<close>, for every layer index \<open>n\<close> below the layer count the
  texture made for layer \<open>n\<close>, imported from that layer's DMA-BUF object at that
  layer's offset, is non-null and stands in \<open>tex[n]\<close>, except that for the fourcc
  YV12 the textures of layers 1 and 2 stand in \<open>tex[2]\<close> and \<open>tex[1]\<close>; and a
  layer with more than one plane makes the map return \<open>-1\<close>.
\<close>

theorem vaapi_mapper_map_textures:
  assumes lt: "length (va_tex m) = 4" and lm: "length (va_mem m) = 4"
    and e: "vaExportSurfaceHandle_res env = Some desc"
    and f: "va_get_imgfmt_desc env = Some fmts"
    and b: "desc_in_bounds desc fmts"
    and wf: "\<forall>l \<in> set (layers desc). object_index0 l < length (objects desc)"
  shows "\<exists>ret m'. vaapi_mapper_map env m = Inr (ret, m') \<and>
           (ret = 0 \<longleftrightarrow> map_steps_ok env) \<and>
           (ret = 0 \<longrightarrow>
              (\<forall>n < length (layers desc).
                 va_tex m' ! tex_slot desc n =
                   Some (Ra_tex n (fmts ! n)
                           (Some (Pl_vulkan_mem
                                    (obj_fd (objects desc ! object_index0 (layers desc ! n)))
                                    (obj_size (objects desc ! object_index0 (layers desc ! n)))))
                           (offset0 (layers desc ! n))))) \<and>
           ((\<exists>l \<in> set (layers desc). 1 < num_planes l) \<longrightarrow> ret = - 1)"
proof -
  from b e f have "in_bounds env"
    by (simp add: in_bounds_def)
  from vaapi_mapper_map_no_fault[OF this] obtain ret m'
    where r: "vaapi_mapper_map env m = Inr (ret, m')"
    by blast
  from vaapi_mapper_map_ret[OF r] vaapi_mapper_map_textures_aux[OF lt lm e f r wf] r
  show ?thesis
    by blast
qed

theorem vaapi_mapper_map_textures_witness:
  "(\<exists>m'. vaapi_mapper_map sample_vaapi_env empty_mapper = Inr (0, m') \<and>
      va_tex m' ! 0 = Some (Ra_tex 0 8 (Some (Pl_vulkan_mem 10 4096)) 0) \<and>
      va_tex m' ! 2 = Some (Ra_tex 1 8 (Some (Pl_vulkan_mem 11 1024)) 0)) \<and>
   (\<exists>m'. vaapi_mapper_map
      (sample_vaapi_env\<lparr>vaExportSurfaceHandle_res :=
         Some (sample_desc\<lparr>layers := [\<lparr>num_planes = 2, object_index0 = 0, offset0 = 0\<rparr>]\<rparr>)\<rparr>)
      empty_mapper = Inr (- 1, m'))"
proof -
  let ?d2 = "sample_desc\<lparr>layers := [\<lparr>num_planes = 2, object_index0 = 0, offset0 = 0\<rparr>]\<rparr>"
  let ?e2 = "sample_vaapi_env\<lparr>vaExportSurfaceHandle_res := Some ?d2\<rparr>"
  have l: "length (va_tex empty_mapper) = 4" "length (va_mem empty_mapper) = 4"
    by (simp_all add: empty_mapper_def)
  have e: "vaExportSurfaceHandle_res sample_vaapi_env = Some sample_desc"
    "va_get_imgfmt_desc sample_vaapi_env = Some [8, 8, 8]"
    "vaExportSurfaceHandle_res ?e2 = Some ?d2" "va_get_imgfmt_desc ?e2 = Some [8, 8, 8]"
    by (simp_all add: sample_vaapi_env_def)
  have b: "desc_in_bounds sample_desc [8, 8, 8]" "desc_in_bounds ?d2 [8, 8, 8]"
    by (simp_all add: desc_in_bounds_def sample_desc_def)
  have wf: "\<forall>l \<in> set (layers sample_desc). object_index0 l < length (objects sample_desc)"
    "\<forall>l \<in> set (layers ?d2). object_index0 l < length (objects ?d2)"
    by (simp_all add: sample_desc_def)
  have ok: "map_steps_ok sample_vaapi_env"
    by (auto simp: map_steps_ok_def sample_vaapi_env_def sample_desc_def less_Suc_eq
        numeral_3_eq_3)
  have d: "length (layers sample_desc) = 3" "tex_slot sample_desc 0 = 0" "tex_slot sample_desc 1 = 2"
    "layers sample_desc ! 0 = \<lparr>num_planes = 1, object_index0 = 0, offset0 = 0\<rparr>"
    "layers sample_desc ! 1 = \<lparr>num_planes = 1, object_index0 = 1, offset0 = 0\<rparr>"
    "objects sample_desc ! 0 = \<lparr>obj_fd = 10, obj_size = 4096\<rparr>"
    "objects sample_desc ! 1 = \<lparr>obj_fd = 11, obj_size = 1024\<rparr>"
    "\<exists>l \<in> set (layers ?d2). 1 < num_planes l"
    by (simp_all add: sample_desc_def tex_slot_def)
  from vaapi_mapper_map_textures[OF l e(1,2) b(1) wf(1)] ok obtain m'
    where r: "vaapi_mapper_map sample_vaapi_env empty_mapper = Inr (0, m')"
      and t: "\<forall>n < 3. va_tex m' ! tex_slot sample_desc n =
             Some (Ra_tex n ([8, 8, 8] ! n)
                     (Some (Pl_vulkan_mem
                              (obj_fd (objects sample_desc ! object_index0 (layers sample_desc ! n)))
                              (obj_size (objects sample_desc ! object_index0 (layers sample_desc ! n)))))
                     (offset0 (layers sample_desc ! n)))"
    by (auto simp: d(1))
  from t have t0: "va_tex m' ! 0 = Some (Ra_tex 0 8 (Some (Pl_vulkan_mem 10 4096)) 0)"
    using d by (auto dest!: spec[where x = 0])
  from t have t1: "va_tex m' ! 2 = Some (Ra_tex 1 8 (Some (Pl_vulkan_mem 11 1024)) 0)"
    using d by (auto dest!: spec[where x = 1])
  from vaapi_mapper_map_textures[OF l e(3,4) b(2) wf(2)] d(8)
  have "\<exists>m2. vaapi_mapper_map ?e2 empty_mapper = Inr (- 1, m2)"
    by (elim exE conjE) simp
  with t0 t1 r show ?thesis
    by blast
qed

end
